theory Spec2Isabelle
  imports Complex_Main
begin

section \<open>GeoFlow Tracker: a model of \<^verbatim>\<open>src/app.js\<close>\<close>

text \<open>
  The program is one class, \<^verbatim>\<open>GeoFlowTracker\<close>, whose methods mutate \<^verbatim>\<open>this.state\<close>,
  two further fields (\<^verbatim>\<open>watchId\<close>, \<^verbatim>\<open>trackingInterval\<close>) and the browser around it
  (\<^verbatim>\<open>localStorage\<close>, the geolocation provider, the network, the page). Each method is a
  function from the world before the call to the world after it. An \<^verbatim>\<open>async\<close> method is
  cut at its \<^verbatim>\<open>await\<close>: one function for the part that runs when it is called, one for the
  part that runs when the request has settled, which takes the outcome of the request
  as an argument and the world as it is at that later time.

  What the model leaves to the platform:
  \<^item> the page has every element the program looks up with \<^verbatim>\<open>getElementById\<close>, so no
    write to the page fails; of the page only the status line, the validation message,
    the modal and the two buttons are kept;
  \<^item> \<^verbatim>\<open>localStorage.getItem\<close> and \<^verbatim>\<open>setItem\<close> do not fail;
  \<^item> a string is a list of 8-bit characters, and the pictographs in front of some
    messages are left out of the message text;
  \<^item> a JavaScript number that counts is a double that is an integer, an infinity or
    NaN, and adding 1 to it rounds as doubles do; one that measures is a real, and is
    only copied;
  \<^item> a request settles: the part of a method after an \<^verbatim>\<open>await\<close> is about the time when
    it runs, and says nothing of a request that stays pending for ever.
\<close>

subsection \<open>Values\<close>

text \<open>A value that \<^verbatim>\<open>response.json()\<close> can give, and that \<^verbatim>\<open>JSON.stringify\<close> takes.\<close>

datatype json =
    JNull
  | JBool bool
  | JNum real
  | JStr string
  | JArr "json list"
  | JObj "(string \<times> json) list"

text \<open>\<^verbatim>\<open>data && ...\<close>: null, false, 0 and the empty string are falsy.\<close>

fun truthy :: "json \<Rightarrow> bool" where
  "truthy JNull = False"
| "truthy (JBool b) = b"
| "truthy (JNum r) = (r \<noteq> 0)"
| "truthy (JStr s) = (s \<noteq> [])"
| "truthy (JArr xs) = True"
| "truthy (JObj kvs) = True"

fun isArray :: "json \<Rightarrow> bool" where
  "isArray (JArr xs) = True"
| "isArray v = False"

text \<open>\<^verbatim>\<open>data.length\<close> where \<^verbatim>\<open>data\<close> is an array (the program reads it only then).\<close>

fun array_length :: "json \<Rightarrow> nat" where
  "array_length (JArr xs) = length xs"
| "array_length v = 0"

text \<open>
  \<^verbatim>\<open>data.id\<close> on a value that is not null: the member of an object (the last one of
  that name), \<^verbatim>\<open>undefined\<close> (\<open>None\<close>) on anything else.
\<close>

fun member :: "string \<Rightarrow> json \<Rightarrow> json option" where
  "member k (JObj kvs) = map_of (rev kvs) k"
| "member k v = None"

text \<open>
  A counter is a JavaScript number, that is a double. The doubles that are integers are
  every integer from \<open>- 2 ^ 53\<close> to \<open>2 ^ 53\<close> and, beyond, the integers with at most 53
  significant bits; \<open>Num n\<close> is the double that is the integer \<open>n\<close>. \<^verbatim>\<open>parseInt\<close> gives such
  a double, an infinity on a long enough run of digits, or NaN, and \<^verbatim>\<open>++\<close> gives a double
  again, so the counter of the program is never \<open>Num n\<close> for an \<open>n\<close> that is no double.
\<close>

datatype jsnum = NaN | Num int | PlusInfinity | MinusInfinity

text \<open>The number of bits of a positive integer.\<close>

function bit_length :: "int \<Rightarrow> nat" where
  "bit_length n = (if n \<le> 0 then 0 else Suc (bit_length (n div 2)))"
  by pat_completeness auto
termination
  by (relation "measure nat") auto

declare bit_length.simps [simp del]

text \<open>
  The double nearest to an integer, as IEEE 754 rounds (to nearest, a tie to the even
  significand). An integer below \<open>2 ^ 53\<close> in magnitude is a double. A larger one keeps
  its 53 leading bits \<open>q\<close>, one more when the rest \<open>r\<close> is over half of \<open>2 ^ e\<close> or is half
  of it and \<open>q\<close> is odd; from \<open>2 ^ 1024\<close> on the result is an infinity.
\<close>

definition to_double :: "int \<Rightarrow> jsnum" where
  "to_double k =
     (let a = \<bar>k\<bar> in
      if a < 2 ^ 53 then Num k
      else
        (let e = bit_length a - 53;
             q = a div 2 ^ e;
             r = a mod 2 ^ e;
             q' = (if 2 * r > 2 ^ e \<or> (2 * r = 2 ^ e \<and> odd q) then q + 1 else q);
             v = q' * 2 ^ e
         in if v \<ge> 2 ^ 1024 then (if k < 0 then MinusInfinity else PlusInfinity)
            else Num (if k < 0 then - v else v)))"

text \<open>\<^verbatim>\<open>n++\<close>: the sum with 1, rounded to a double.\<close>

fun increment :: "jsnum \<Rightarrow> jsnum" where
  "increment NaN = NaN"
| "increment (Num n) = to_double (n + 1)"
| "increment PlusInfinity = PlusInfinity"
| "increment MinusInfinity = MinusInfinity"

definition digit_char :: "int \<Rightarrow> char" where
  "digit_char d = ''0123456789'' ! nat (d mod 10)"

text \<open>The decimal digits of an integer that is not negative; then of any integer.\<close>

function decimal :: "int \<Rightarrow> string" where
  "decimal n = (if n < 10 then [digit_char n] else decimal (n div 10) @ [digit_char n])"
  by pat_completeness auto
termination
  by (relation "measure nat") auto

declare decimal.simps [simp del]

definition decimal_int :: "int \<Rightarrow> string" where
  "decimal_int n = (if n < 0 then ''-'' @ decimal (- n) else decimal n)"

text \<open>
  The string \<^verbatim>\<open>localStorage.setItem\<close> stores for a number. From \<open>- 2 ^ 53\<close> to \<open>2 ^ 53\<close> it
  is the decimal digits of the integer. Beyond, the language asks for the fewest digits
  that read back as the same double (in exponent form from \<open>10 ^ 21\<close> on) and leaves
  the last of them to the implementation: there the string is the browser's, \<open>pr\<close>.
\<close>

fun String_of :: "(int \<Rightarrow> string) \<Rightarrow> jsnum \<Rightarrow> string" where
  "String_of pr NaN = ''NaN''"
| "String_of pr (Num n) = (if - (2 ^ 53) \<le> n \<and> n \<le> 2 ^ 53 then decimal_int n else pr n)"
| "String_of pr PlusInfinity = ''Infinity''"
| "String_of pr MinusInfinity = ''-Infinity''"

text \<open>White space as \<^verbatim>\<open>trim\<close> and \<^verbatim>\<open>parseInt\<close> skip it, among the 8-bit characters.\<close>

definition is_space :: "char \<Rightarrow> bool" where
  "is_space c \<longleftrightarrow>
     c \<in> set [CHR 0x09, CHR 0x0A, CHR 0x0B, CHR 0x0C, CHR 0x0D, CHR 0x20, CHR 0xA0]"

definition trim :: "string \<Rightarrow> string" where
  "trim s = rev (dropWhile is_space (rev (dropWhile is_space s)))"

definition digit_value :: "nat \<Rightarrow> char \<Rightarrow> nat option" where
  "digit_value radix c =
     (case map_of (zip ''0123456789abcdef'' [0 ..< 16] @ zip ''ABCDEF'' [10 ..< 16]) c of
        None \<Rightarrow> None
      | Some d \<Rightarrow> if d < radix then Some d else None)"

text \<open>
  \<^verbatim>\<open>parseInt(s)\<close> with no radix: white space, a sign, \<^verbatim>\<open>0x\<close> for base 16, then the
  longest run of digits; NaN when there is no digit, and else the double nearest to
  the integer the digits write. (In base 10 an implementation may read the digits after
  the twentieth as 0; the model reads every digit.)
\<close>

definition parseInt :: "string \<Rightarrow> jsnum" where
  "parseInt s =
     (let t = dropWhile is_space s;
          neg = (take 1 t = ''-'');
          u = (if take 1 t = ''-'' \<or> take 1 t = ''+'' then drop 1 t else t);
          hex = (take 2 u = ''0x'' \<or> take 2 u = ''0X'');
          radix = (if hex then 16 else 10);
          v = (if hex then drop 2 u else u);
          ds = takeWhile (\<lambda>c. digit_value radix c \<noteq> None) v;
          m = foldl (\<lambda>a c. a * int radix + int (the (digit_value radix c))) 0 ds
      in if ds = [] then NaN else to_double (if neg then - m else m))"

text \<open>\<^verbatim>\<open>s.replace(pat, rep)\<close> with a string pattern: the first occurrence only.\<close>

fun replace :: "string \<Rightarrow> string \<Rightarrow> string \<Rightarrow> string" where
  "replace pat rep [] = (if pat = [] then rep else [])"
| "replace pat rep (c # cs) =
     (if take (length pat) (c # cs) = pat then rep @ drop (length pat) (c # cs)
      else c # replace pat rep cs)"

subsection \<open>Messages\<close>

text \<open>
  A message is kept as the text of its template, with the holes \<^verbatim>\<open>${...}\<close> as the source
  writes them, and the values that fill the holes, in order. How a value is printed
  (\<^verbatim>\<open>toFixed\<close>, the conversion of a JSON value to a string) is the display's business.
\<close>

datatype thrown =
    PlatformError string
  | HttpError nat string
  | TypeError

datatype arg =
    AStr string
  | ANat nat
  | AReal real
  | AMember "json option"
  | AError thrown

datatype message = Msg string "arg list"

datatype severity = Info | Success | Warning | Error | System

record log_entry =
  le_message :: message
  le_type :: severity
  le_timestamp :: string

subsection \<open>Samples and requests\<close>

text \<open>\<^verbatim>\<open>position.coords\<close> as the provider delivers it.\<close>

record coords =
  c_latitude :: real
  c_longitude :: real
  c_accuracy :: real
  c_altitude :: "real option"
  c_heading :: "real option"
  c_speed :: "real option"

text \<open>\<^verbatim>\<open>locationData\<close>, the sample built by \<^verbatim>\<open>onLocationSuccess\<close>.\<close>

record locationData =
  latitude :: real
  longitude :: real
  accuracy :: real
  altitude :: "real option"
  heading :: "real option"
  speed :: "real option"
  timestamp :: string

datatype request =
    GET string
  | POST string json

text \<open>
  How a request ends, as far as the program looks: \<^verbatim>\<open>fetch\<close> rejects, or there is a
  response with a status and a status text, whose body \<^verbatim>\<open>response.json()\<close> parses or
  rejects. \<^verbatim>\<open>response.ok\<close> is the status being in 200..299.
\<close>

datatype body = Unparsable string | Parsed json

datatype remote =
    Unreachable string
  | Replied nat string body

definition ok :: "nat \<Rightarrow> bool" where
  "ok status \<longleftrightarrow> 200 \<le> status \<and> status \<le> 299"

text \<open>
  What \<^verbatim>\<open>JSON.parse(text)\<close> gives, as far as the one test the program makes on it,
  \<^verbatim>\<open>localData.length > 0\<close>, can tell: it throws, or the value is null (reading
  \<^verbatim>\<open>.length\<close> of it throws), or an array, or another value, of which the answer of the
  test is kept.
\<close>

datatype local_data =
    SyntaxError string
  | LNull
  | LArray "json list"
  | LOther bool

text \<open>
  The geolocation provider: the subscriptions that are live, the handle the next
  \<^verbatim>\<open>watchPosition\<close> returns, and the handles \<^verbatim>\<open>clearWatch\<close> was called with, in order.
\<close>

record provider =
  live :: "nat list"
  next_handle :: nat
  cleared :: "nat list"

definition watchPosition :: "provider \<Rightarrow> nat \<times> provider" where
  "watchPosition p =
     (next_handle p, p\<lparr>live := live p @ [next_handle p], next_handle := next_handle p + 1\<rparr>)"

definition clearWatch :: "nat \<Rightarrow> provider \<Rightarrow> provider" where
  "clearWatch h p = p\<lparr>live := removeAll h (live p), cleared := cleared p @ [h]\<rparr>"

subsection \<open>The world\<close>

text \<open>
  The fields of \<^verbatim>\<open>this.state\<close> keep their names; \<^verbatim>\<open>lastError\<close>, which no method writes
  or reads, is left out. Then the two fields of \<^verbatim>\<open>this\<close>, then the browser:
  \<open>JSON_parse\<close> and \<open>Number_toString\<close> are its \<^verbatim>\<open>JSON.parse\<close> and its printing of the
  numbers beyond \<open>2 ^ 53\<close>, \<open>geolocation\<close> says whether \<^verbatim>\<open>navigator.geolocation\<close> exists, \<open>geo\<close> is the provider
  behind it, \<open>requests\<close> are the calls of \<^verbatim>\<open>fetch\<close> so far, \<open>nowISO\<close> and \<open>nowLocale\<close>
  are what \<^verbatim>\<open>new Date()\<close> prints now.
\<close>

record world =
  isTracking :: bool
  isInitialized :: bool
  userId :: "string option"
  sessionCount :: jsnum
  locations :: "locationData list"
  debugLogs :: "log_entry list"
  lastLocation :: "locationData option"
  userIdSet :: bool
  trackingInterval :: "nat option"
  watchId :: "nat option"
  localStorage :: "string \<rightharpoonup> string"
  JSON_parse :: "string \<Rightarrow> local_data"
  Number_toString :: "int \<Rightarrow> string"
  geolocation :: bool
  geo :: provider
  requests :: "request list"
  nowISO :: string
  nowLocale :: string
  statusLine :: "(message \<times> severity) option"
  validationMessage :: "message option"
  modalShown :: bool
  startBtn_disabled :: bool
  stopBtn_disabled :: bool

definition backendUrl :: string where
  "backendUrl = ''https://k04bfg24-8080.asse.devtunnels.ms/api/v1/tracking/push''"

definition maxDebugLogs :: nat where
  "maxDebugLogs = 50"

subsection \<open>The status sink\<close>

text \<open>\<^verbatim>\<open>debug(message, type)\<close>: \<^verbatim>\<open>push\<close>, then one \<^verbatim>\<open>shift\<close> when the log is over the bound.\<close>

definition debug :: "message \<Rightarrow> severity \<Rightarrow> world \<Rightarrow> world" where
  "debug m t w =
     (let logs = debugLogs w @ [\<lparr>le_message = m, le_type = t, le_timestamp = nowLocale w\<rparr>]
      in w\<lparr>debugLogs := (if length logs > maxDebugLogs then tl logs else logs)\<rparr>)"

definition setStatus :: "message \<Rightarrow> severity \<Rightarrow> world \<Rightarrow> world" where
  "setStatus m t w = w\<lparr>statusLine := Some (m, t)\<rparr>"

definition showValidationError :: "message \<Rightarrow> world \<Rightarrow> world" where
  "showValidationError m w =
     debug m Error (setStatus m Error (w\<lparr>validationMessage := Some m\<rparr>))"

definition showUserIdModal :: "world \<Rightarrow> world" where
  "showUserIdModal w = debug (Msg ''User ID modal shown'' []) Info (w\<lparr>modalShown := True\<rparr>)"

definition hideUserIdModal :: "world \<Rightarrow> world" where
  "hideUserIdModal w = w\<lparr>modalShown := False\<rparr>"

subsection \<open>Identity\<close>

text \<open>\<^verbatim>\<open>/^[a-zA-Z0-9_-]+$/.test(userId)\<close>\<close>

definition id_char :: "char \<Rightarrow> bool" where
  "id_char c \<longleftrightarrow>
     c \<in> set ''abcdefghijklmnopqrstuvwxyzABCDEFGHIJKLMNOPQRSTUVWXYZ0123456789_-''"

definition regex_test :: "string \<Rightarrow> bool" where
  "regex_test s \<longleftrightarrow> s \<noteq> [] \<and> list_all id_char s"

text \<open>The candidate passes the check of line 209.\<close>

definition well_formed :: "string \<Rightarrow> bool" where
  "well_formed u \<longleftrightarrow> \<not> (\<not> regex_test u \<or> length u < 3 \<or> length u > 50)"

definition historyUrl :: "string \<Rightarrow> string" where
  "historyUrl u = replace ''/push'' [] backendUrl @ ''/history/'' @ u"

text \<open>\<^verbatim>\<open>`${this.state.userId}`\<close>: null prints as \<^verbatim>\<open>null\<close>.\<close>

definition id_text :: "string option \<Rightarrow> string" where
  "id_text u = (case u of None \<Rightarrow> ''null'' | Some s \<Rightarrow> s)"

text \<open>\<^verbatim>\<open>localStorage.getItem(key) || dflt\<close>: a missing or empty item gives the default.\<close>

definition getItem_or :: "world \<Rightarrow> string \<Rightarrow> string \<Rightarrow> string" where
  "getItem_or w key dflt =
     (case localStorage w key of None \<Rightarrow> dflt | Some s \<Rightarrow> if s = [] then dflt else s)"

definition setItem :: "string \<Rightarrow> string \<Rightarrow> world \<Rightarrow> world" where
  "setItem key v w = w\<lparr>localStorage := (localStorage w)(key \<mapsto> v)\<rparr>"

text \<open>
  How \<^verbatim>\<open>submitUserId\<close> ends. It returns nothing; an exit names the \<^verbatim>\<open>return\<close> it left
  by: the two of the format check (with the message shown), the two that found the
  identifier in use, the two that took it, and an exception of the \<^verbatim>\<open>catch\<close> block.
\<close>

datatype submit_exit =
    InvalidFormat message
  | AlreadyTaken nat
  | AlreadyTakenLocally
  | Accepted
  | AcceptedOffline
  | Uncaught thrown

text \<open>
  \<^verbatim>\<open>submitUserId\<close> up to the call of \<^verbatim>\<open>fetch\<close> (lines 200 to 225). \<open>raw\<close> is the value of
  the input field. The result says whether the method has returned, and how, or waits
  for the lookup of the identifier it gives.
\<close>

definition submitUserId_request :: "string \<Rightarrow> world \<Rightarrow> world \<times> (submit_exit + string)" where
  "submitUserId_request raw w =
     (let u = trim raw in
      if u = [] then
        (showValidationError (Msg ''Please enter a User ID'' []) w,
         Inl (InvalidFormat (Msg ''Please enter a User ID'' [])))
      else if \<not> regex_test u \<or> length u < 3 \<or> length u > 50 then
        (showValidationError (Msg ''Invalid User ID format'' []) w,
         Inl (InvalidFormat (Msg ''Invalid User ID format'' [])))
      else
        (let w1 = debug (Msg ''Checking User ID availability: ${userId}'' [AStr u]) Info w;
             w2 = setStatus (Msg ''Checking User ID...'' []) Info w1
         in (w2\<lparr>requests := requests w2 @ [GET (historyUrl u)]\<rparr>, Inr u)))"

text \<open>Lines 238 to 251: the identifier is taken to be available.\<close>

definition submit_accept :: "string \<Rightarrow> world \<Rightarrow> world" where
  "submit_accept u w =
     (let w1 = w\<lparr>userId := Some u, userIdSet := True\<rparr>;
          w2 = w1\<lparr>sessionCount := parseInt (getItem_or w1 (''session_count_'' @ u) ''0'')\<rparr>;
          w3 = setItem ''current_user_id'' u w2;
          w4 = debug (Msg ''User ID '${userId}' verified and set'' [AStr u]) Success w3;
          w5 = setStatus (Msg ''Ready to track'' []) Success w4;
          w6 = hideUserIdModal w5
      in w6\<lparr>isInitialized := True\<rparr>)"

text \<open>Lines 253 to 274: the \<^verbatim>\<open>catch\<close> block. What it throws itself leaves the method.\<close>

definition submit_catch :: "thrown \<Rightarrow> string \<Rightarrow> world \<Rightarrow> world \<times> submit_exit" where
  "submit_catch e u w =
     (let w1 = debug (Msg ''Could not verify User ID online: ${error.message}'' [AError e])
                 Warning w
      in case JSON_parse w1 (getItem_or w1 (''tracking_data_'' @ u) ''[]'') of
           SyntaxError m \<Rightarrow> (w1, Uncaught (PlatformError m))
         | LNull \<Rightarrow> (w1, Uncaught TypeError)
         | localData \<Rightarrow>
             if (case localData of LArray xs \<Rightarrow> length xs > 0 | LOther b \<Rightarrow> b | _ \<Rightarrow> False)
             then
               (showValidationError
                  (Msg ''User ID '${userId}' already used locally. Please use a different User ID.''
                     [AStr u]) w1,
                AlreadyTakenLocally)
             else
               (let w2 = w1\<lparr>userId := Some u, userIdSet := True\<rparr>;
                    w3 = setItem ''current_user_id'' u w2;
                    w4 = hideUserIdModal w3;
                    w5 = w4\<lparr>isInitialized := True\<rparr>;
                    w6 = setStatus (Msg ''Offline mode - Ready to track'' []) Warning w5
                in (debug (Msg ''User ID set to '${userId}' (offline validation)'' [AStr u])
                      Info w6,
                    AcceptedOffline)))"

text \<open>
  \<^verbatim>\<open>submitUserId\<close> from the moment the lookup has settled (lines 227 to 274), for the
  identifier \<open>u\<close> the request was made for.
\<close>

definition submitUserId_response :: "string \<Rightarrow> remote \<Rightarrow> world \<Rightarrow> world \<times> submit_exit" where
  "submitUserId_response u r w =
     (case r of
        Unreachable m \<Rightarrow> submit_catch (PlatformError m) u w
      | Replied status text b \<Rightarrow>
          if ok status then
            (case b of
               Unparsable m \<Rightarrow> submit_catch (PlatformError m) u w
             | Parsed data \<Rightarrow>
                 if truthy data \<and> isArray data \<and> array_length data > 0 then
                   (debug (Msg ''User ID '${userId}' already in use'' [AStr u]) Warning
                      (showValidationError
                         (Msg ''User ID '${userId}' already exists with ${data.length} tracking records. Please use a different User ID.''
                            [AStr u, ANat (array_length data)]) w),
                    AlreadyTaken (array_length data))
                 else (submit_accept u w, Accepted))
          else (submit_accept u w, Accepted))"

text \<open>The whole method, when nothing else happens while the lookup is under way.\<close>

definition submitUserId :: "string \<Rightarrow> remote \<Rightarrow> world \<Rightarrow> world \<times> submit_exit" where
  "submitUserId raw r w =
     (case submitUserId_request raw w of
        (w1, Inl e) \<Rightarrow> (w1, e)
      | (w1, Inr u) \<Rightarrow> submitUserId_response u r w1)"

subsection \<open>Tracking\<close>

definition startTracking :: "world \<Rightarrow> world" where
  "startTracking w =
     (if \<not> userIdSet w then
        showUserIdModal
          (setStatus (Msg ''Please set User ID first'' []) Error
             (debug (Msg ''User ID not set. Please set User ID first.'' []) Error w))
      else if isTracking w then debug (Msg ''Tracking already active'' []) Warning w
      else
        (let w1 = setStatus (Msg ''Starting...'' []) Info w;
             w2 = w1\<lparr>isTracking := True\<rparr>;
             w3 = w2\<lparr>sessionCount := increment (sessionCount w2)\<rparr>;
             w4 = w3\<lparr>startBtn_disabled := True, stopBtn_disabled := False\<rparr>;
             w5 = (if geolocation w4 then
                     (case watchPosition (geo w4) of
                        (h, p) \<Rightarrow>
                          debug (Msg ''Using watchPosition for continuous tracking'' []) Info
                            (w4\<lparr>watchId := Some h, geo := p\<rparr>))
                   else w4);
             w6 = debug (Msg ''Tracking started (Watch active)'' []) Success w5;
             w7 = setStatus (Msg ''Tracking active'' []) Success w6
         in setItem (''session_count_'' @ id_text (userId w7)) (String_of (Number_toString w7) (sessionCount w7)) w7))"

text \<open>
  \<^verbatim>\<open>stopTracking\<close>. \<^verbatim>\<open>navigator.geolocation.clearWatch\<close> throws a TypeError where there is
  no \<^verbatim>\<open>navigator.geolocation\<close>; the second component says what was thrown, if anything.
  \<^verbatim>\<open>if (this.trackingInterval)\<close> takes a timer handle other than 0.
\<close>

definition stopTracking :: "world \<Rightarrow> world \<times> thrown option" where
  "stopTracking w =
     (if \<not> isTracking w then (debug (Msg ''Tracking not active'' []) Warning w, None)
      else if watchId w \<noteq> None \<and> \<not> geolocation w then (w, Some TypeError)
      else
        (let w1 = (case watchId w of
                     None \<Rightarrow> w
                   | Some h \<Rightarrow>
                       debug (Msg ''Cleared watchPosition'' []) Info
                         (w\<lparr>geo := clearWatch h (geo w), watchId := None\<rparr>));
             w2 = (case trackingInterval w1 of
                     None \<Rightarrow> w1
                   | Some t \<Rightarrow> if t \<noteq> 0 then w1\<lparr>trackingInterval := None\<rparr> else w1);
             w3 = w2\<lparr>isTracking := False\<rparr>;
             w4 = w3\<lparr>startBtn_disabled := False, stopBtn_disabled := True\<rparr>;
             w5 = debug (Msg ''Tracking stopped'' []) Info w4
         in (setStatus (Msg ''Tracking stopped'' []) Info w5, None)))"

definition getLocation :: "world \<Rightarrow> world" where
  "getLocation w =
     (if \<not> geolocation w then debug (Msg ''Geolocation API not available'' []) Error w
      else debug (Msg ''Requesting location...'' []) Info w)"

subsection \<open>Delivery\<close>

definition addLocationLog :: "locationData \<Rightarrow> world \<Rightarrow> world" where
  "addLocationLog data w = w\<lparr>locations := locations w @ [data]\<rparr>"

text \<open>The object \<^verbatim>\<open>payload\<close> of lines 435 to 441, as \<^verbatim>\<open>JSON.stringify\<close> gets it.\<close>

definition payload :: "locationData \<Rightarrow> world \<Rightarrow> json" where
  "payload d w =
     JObj [(''user_id'', (case userId w of None \<Rightarrow> JNull | Some u \<Rightarrow> JStr u)),
           (''latitude'', JNum (latitude d)),
           (''longitude'', JNum (longitude d)),
           (''accuracy'', JNum (accuracy d)),
           (''timestamp'', JStr (timestamp d))]"

text \<open>\<^verbatim>\<open>sendToBackend\<close> up to the call of \<^verbatim>\<open>fetch\<close> (lines 435 to 454).\<close>

definition sendToBackend_request :: "locationData \<Rightarrow> world \<Rightarrow> world" where
  "sendToBackend_request d w =
     (let body = payload d w;
          w1 = debug (Msg ''Sending to: ${this.config.backendUrl}'' [AStr backendUrl]) Info w
      in w1\<lparr>requests := requests w1 @ [POST backendUrl body]\<rparr>)"

text \<open>Lines 466 to 473: the \<^verbatim>\<open>catch\<close> block.\<close>

definition sendToBackend_catch :: "thrown \<Rightarrow> locationData \<Rightarrow> world \<Rightarrow> world" where
  "sendToBackend_catch e d w =
     addLocationLog d
       (debug (Msg ''URL: ${this.config.backendUrl}'' [AStr backendUrl]) Warning
          (debug (Msg ''Backend error: ${errorMsg}'' [AError e]) Warning w))"

text \<open>
  \<^verbatim>\<open>sendToBackend\<close> from the moment the request has settled (lines 456 to 473).
  \<^verbatim>\<open>data.id\<close> throws a TypeError when the body is \<^verbatim>\<open>null\<close>.
\<close>

definition sendToBackend_response :: "locationData \<Rightarrow> remote \<Rightarrow> world \<Rightarrow> world" where
  "sendToBackend_response d r w =
     (case r of
        Unreachable m \<Rightarrow> sendToBackend_catch (PlatformError m) d w
      | Replied status text b \<Rightarrow>
          if \<not> ok status then sendToBackend_catch (HttpError status text) d w
          else
            (case b of
               Unparsable m \<Rightarrow> sendToBackend_catch (PlatformError m) d w
             | Parsed data \<Rightarrow>
                 if data = JNull then sendToBackend_catch TypeError d w
                 else
                   addLocationLog d
                     (debug (Msg ''Data sent successfully (ID: ${data.id})''
                               [AMember (member ''id'' data)]) Success w)))"

text \<open>The whole method, when nothing else happens while the request is under way.\<close>

definition sendToBackend :: "locationData \<Rightarrow> remote \<Rightarrow> world \<Rightarrow> world" where
  "sendToBackend d r w = sendToBackend_response d r (sendToBackend_request d w)"

subsection \<open>Provider callbacks\<close>

text \<open>The sample of lines 384 to 395.\<close>

definition sample :: "coords \<Rightarrow> world \<Rightarrow> locationData" where
  "sample c w =
     \<lparr>latitude = c_latitude c, longitude = c_longitude c, accuracy = c_accuracy c,
      altitude = c_altitude c, heading = c_heading c, speed = c_speed c,
      timestamp = nowISO w\<rparr>"

text \<open>
  \<^verbatim>\<open>onLocationSuccess\<close>: it calls \<^verbatim>\<open>sendToBackend\<close> and does not wait for it, so it ends
  where the request has been made.
\<close>

definition onLocationSuccess :: "coords \<Rightarrow> world \<Rightarrow> world" where
  "onLocationSuccess c w =
     (let d = sample c w;
          w1 = w\<lparr>lastLocation := Some d\<rparr>;
          w2 = debug (Msg ''Location: ${latitude.toFixed(6)}, ${longitude.toFixed(6)} (+-${accuracy.toFixed(0)}m)''
                        [AReal (latitude d), AReal (longitude d), AReal (accuracy d)])
                 Success w1
      in sendToBackend_request d w2)"

definition errorMessages :: "nat \<Rightarrow> message" where
  "errorMessages code =
     (if code = 1 then Msg ''Permission denied - Enable location access'' []
      else if code = 2 then Msg ''Position unavailable - Check GPS signal'' []
      else if code = 3 then Msg ''Location request timeout'' []
      else Msg ''Unknown geolocation error'' [])"

definition onLocationError :: "nat \<Rightarrow> world \<Rightarrow> world \<times> thrown option" where
  "onLocationError code w =
     (let m = errorMessages code;
          w1 = debug m Error w;
          w2 = setStatus m Error w1
      in if code = 1 then stopTracking w2 else (w2, None))"

subsection \<open>Start of the application\<close>

datatype permission_query =
    NoPermissionsAPI
  | QueryFailed string
  | PermissionState string

definition updatePermissionStatus :: "string \<Rightarrow> world \<Rightarrow> world" where
  "updatePermissionStatus s w = debug (Msg ''Permission state: ${state}'' [AStr s]) Info w"

definition checkPermissions :: "permission_query \<Rightarrow> world \<Rightarrow> world" where
  "checkPermissions q w =
     (case q of
        NoPermissionsAPI \<Rightarrow> debug (Msg ''Permissions API not available'' []) Warning w
      | QueryFailed m \<Rightarrow>
          debug (Msg ''Permission check failed: ${error.message}'' [AStr m]) Warning w
      | PermissionState s \<Rightarrow> updatePermissionStatus s w)"

definition init :: "permission_query \<Rightarrow> world \<Rightarrow> world" where
  "init q w =
     (let w1 = debug (Msg ''App started'' []) System w in
      if \<not> geolocation w1 then
        debug (Msg ''Geolocation API not available'' []) Error
          (setStatus (Msg ''Geolocation not supported'' []) Error w1)
      else showUserIdModal (checkPermissions q w1))"

text \<open>The constructor, in the browser \<open>b\<close>: lines 21 to 35, then \<^verbatim>\<open>init\<close>.\<close>

definition constructor :: "permission_query \<Rightarrow> world \<Rightarrow> world" where
  "constructor q b =
     init q
       (b\<lparr>isTracking := False, isInitialized := False, userId := None, sessionCount := Num 0,
          locations := [], debugLogs := [], lastLocation := None, userIdSet := False,
          trackingInterval := None, watchId := None\<rparr>)"

subsection \<open>Runs\<close>

text \<open>
  What can happen to a running tracker: a click, a settled request, a callback of the
  provider, the clock moving on. A continuation of an \<^verbatim>\<open>async\<close> method is an event of its
  own, so that a run interleaves the methods as the browser may; a run may also hold a
  continuation that no request came before, which the browser never delivers, so what
  holds of every run holds of every run of the browser. An exception that leaves a
  handler ends the handler and nothing else.
\<close>

datatype event =
    Submit string
  | LookupSettled string remote
  | Start
  | Stop
  | Locate
  | Position coords
  | PositionError nat
  | DeliverySettled locationData remote
  | PermissionChange string
  | Clock string string

fun step :: "event \<Rightarrow> world \<Rightarrow> world" where
  "step (Submit raw) w = fst (submitUserId_request raw w)"
| "step (LookupSettled u r) w = fst (submitUserId_response u r w)"
| "step Start w = startTracking w"
| "step Stop w = fst (stopTracking w)"
| "step Locate w = getLocation w"
| "step (Position c) w = onLocationSuccess c w"
| "step (PositionError code) w = fst (onLocationError code w)"
| "step (DeliverySettled d r) w = sendToBackend_response d r w"
| "step (PermissionChange s) w = updatePermissionStatus s w"
| "step (Clock t1 t2) w = w\<lparr>nowISO := t1, nowLocale := t2\<rparr>"

fun run :: "event list \<Rightarrow> world \<Rightarrow> world" where
  "run [] w = w"
| "run (e # es) w = run es (step e w)"

subsection \<open>Observations\<close>

text \<open>The names of the members of an object, in the order they are written.\<close>

fun keys :: "json \<Rightarrow> string list" where
  "keys (JObj kvs) = map fst kvs"
| "keys v = []"

text \<open>
  A sequence of calls of \<^verbatim>\<open>debug\<close>, each with the time of day at which it is made, and the
  entry a call writes.
\<close>

fun debug_all :: "(string \<times> message \<times> severity) list \<Rightarrow> world \<Rightarrow> world" where
  "debug_all [] w = w"
| "debug_all ((ts, m, t) # cs) w = debug_all cs (debug m t (w\<lparr>nowLocale := ts\<rparr>))"

fun entry_of :: "string \<times> message \<times> severity \<Rightarrow> log_entry" where
  "entry_of (ts, m, t) = \<lparr>le_message = m, le_type = t, le_timestamp = ts\<rparr>"

text \<open>
  The handle and the provider agree: the subscriptions that are live are the one
  \<^verbatim>\<open>watchId\<close> names, or none when it is \<^verbatim>\<open>null\<close>; there is no handle while tracking is
  off, and none without \<^verbatim>\<open>navigator.geolocation\<close>.
\<close>

definition one_watch :: "world \<Rightarrow> bool" where
  "one_watch w \<longleftrightarrow>
     (isTracking w \<or> watchId w = None) \<and>
     (geolocation w \<or> watchId w = None) \<and>
     live (geo w) = (case watchId w of None \<Rightarrow> [] | Some h \<Rightarrow> [h])"

text \<open>
  The lookup did not give an answer: \<^verbatim>\<open>fetch\<close> rejected, or the body of a 2xx response
  did not parse. These are the outcomes that reach the \<^verbatim>\<open>catch\<close> block of
  \<^verbatim>\<open>submitUserId\<close>.
\<close>

fun lookup_failed :: "remote \<Rightarrow> bool" where
  "lookup_failed (Unreachable m) = True"
| "lookup_failed (Replied status text (Unparsable m)) = ok status"
| "lookup_failed (Replied status text (Parsed data)) = False"

text \<open>
  A browser for the examples: nothing stored, a provider with no subscription, a
  \<^verbatim>\<open>JSON.parse\<close> given on the texts the examples store, and a printing of large numbers
  given on two of them (no example counts that far).
\<close>

definition parse0 :: "string \<Rightarrow> local_data" where
  "parse0 s =
     (if s = ''[]'' then LArray []
      else if s = ''[{}]'' then LArray [JObj []]
      else if s = ''null'' then LNull
      else SyntaxError ''Unexpected token'')"

definition print0 :: "int \<Rightarrow> string" where
  "print0 n =
     (if n = 9007199254740994 then ''9007199254740994''
      else if n = 1000000000000000000000 then ''1e+21''
      else [])"

definition browser0 :: world where
  "browser0 =
     \<lparr>isTracking = False, isInitialized = False, userId = None, sessionCount = Num 0,
      locations = [], debugLogs = [], lastLocation = None, userIdSet = False,
      trackingInterval = None, watchId = None, localStorage = Map.empty,
      JSON_parse = parse0, Number_toString = print0, geolocation = True,
      geo = \<lparr>live = [], next_handle = 1, cleared = []\<rparr>, requests = [],
      nowISO = ''2024-05-01T10:00:00.000Z'', nowLocale = ''10:00:00 AM'',
      statusLine = None, validationMessage = None, modalShown = False,
      startBtn_disabled = False, stopBtn_disabled = True\<rparr>"

text \<open>The same browser, where something has left a local history for \<^verbatim>\<open>bob_1\<close>.\<close>

definition browser1 :: world where
  "browser1 = browser0\<lparr>localStorage := [''tracking_data_bob_1'' \<mapsto> ''[{}]'']\<rparr>"

text \<open>The tracker of the examples with the identity \<^verbatim>\<open>alice\<close> accepted.\<close>

definition tracker0 :: world where
  "tracker0 =
     fst (submitUserId ''alice'' (Replied 200 ''OK'' (Parsed (JArr [])))
            (constructor (PermissionState ''granted'') browser0))"

definition coords0 :: coords where
  "coords0 =
     \<lparr>c_latitude = 37.5, c_longitude = 127, c_accuracy = 12.3,
      c_altitude = Some 40, c_heading = None, c_speed = Some 1.5\<rparr>"

section \<open>Lemmas\<close>

subsection \<open>What each helper leaves alone\<close>

lemma debug_frame [simp]:
  "isTracking (debug m t w) = isTracking w"
  "isInitialized (debug m t w) = isInitialized w"
  "userId (debug m t w) = userId w"
  "sessionCount (debug m t w) = sessionCount w"
  "locations (debug m t w) = locations w"
  "lastLocation (debug m t w) = lastLocation w"
  "userIdSet (debug m t w) = userIdSet w"
  "trackingInterval (debug m t w) = trackingInterval w"
  "watchId (debug m t w) = watchId w"
  "localStorage (debug m t w) = localStorage w"
  "JSON_parse (debug m t w) = JSON_parse w"
  "Number_toString (debug m t w) = Number_toString w"
  "geolocation (debug m t w) = geolocation w"
  "geo (debug m t w) = geo w"
  "requests (debug m t w) = requests w"
  "nowISO (debug m t w) = nowISO w"
  "nowLocale (debug m t w) = nowLocale w"
  "statusLine (debug m t w) = statusLine w"
  "validationMessage (debug m t w) = validationMessage w"
  "modalShown (debug m t w) = modalShown w"
  "startBtn_disabled (debug m t w) = startBtn_disabled w"
  "stopBtn_disabled (debug m t w) = stopBtn_disabled w"
  by (simp_all add: debug_def Let_def)

lemma setStatus_frame [simp]:
  "isTracking (setStatus m t w) = isTracking w"
  "isInitialized (setStatus m t w) = isInitialized w"
  "userId (setStatus m t w) = userId w"
  "sessionCount (setStatus m t w) = sessionCount w"
  "locations (setStatus m t w) = locations w"
  "debugLogs (setStatus m t w) = debugLogs w"
  "lastLocation (setStatus m t w) = lastLocation w"
  "userIdSet (setStatus m t w) = userIdSet w"
  "trackingInterval (setStatus m t w) = trackingInterval w"
  "watchId (setStatus m t w) = watchId w"
  "localStorage (setStatus m t w) = localStorage w"
  "JSON_parse (setStatus m t w) = JSON_parse w"
  "Number_toString (setStatus m t w) = Number_toString w"
  "geolocation (setStatus m t w) = geolocation w"
  "geo (setStatus m t w) = geo w"
  "requests (setStatus m t w) = requests w"
  "nowISO (setStatus m t w) = nowISO w"
  "nowLocale (setStatus m t w) = nowLocale w"
  "validationMessage (setStatus m t w) = validationMessage w"
  "modalShown (setStatus m t w) = modalShown w"
  "startBtn_disabled (setStatus m t w) = startBtn_disabled w"
  "stopBtn_disabled (setStatus m t w) = stopBtn_disabled w"
  by (simp_all add: setStatus_def)

lemma showValidationError_frame [simp]:
  "isTracking (showValidationError m w) = isTracking w"
  "isInitialized (showValidationError m w) = isInitialized w"
  "userId (showValidationError m w) = userId w"
  "sessionCount (showValidationError m w) = sessionCount w"
  "locations (showValidationError m w) = locations w"
  "lastLocation (showValidationError m w) = lastLocation w"
  "userIdSet (showValidationError m w) = userIdSet w"
  "trackingInterval (showValidationError m w) = trackingInterval w"
  "watchId (showValidationError m w) = watchId w"
  "localStorage (showValidationError m w) = localStorage w"
  "JSON_parse (showValidationError m w) = JSON_parse w"
  "Number_toString (showValidationError m w) = Number_toString w"
  "geolocation (showValidationError m w) = geolocation w"
  "geo (showValidationError m w) = geo w"
  "requests (showValidationError m w) = requests w"
  "nowISO (showValidationError m w) = nowISO w"
  "nowLocale (showValidationError m w) = nowLocale w"
  "modalShown (showValidationError m w) = modalShown w"
  "startBtn_disabled (showValidationError m w) = startBtn_disabled w"
  "stopBtn_disabled (showValidationError m w) = stopBtn_disabled w"
  by (simp_all add: showValidationError_def)

lemma showUserIdModal_frame [simp]:
  "isTracking (showUserIdModal w) = isTracking w"
  "isInitialized (showUserIdModal w) = isInitialized w"
  "userId (showUserIdModal w) = userId w"
  "sessionCount (showUserIdModal w) = sessionCount w"
  "locations (showUserIdModal w) = locations w"
  "lastLocation (showUserIdModal w) = lastLocation w"
  "userIdSet (showUserIdModal w) = userIdSet w"
  "trackingInterval (showUserIdModal w) = trackingInterval w"
  "watchId (showUserIdModal w) = watchId w"
  "localStorage (showUserIdModal w) = localStorage w"
  "JSON_parse (showUserIdModal w) = JSON_parse w"
  "Number_toString (showUserIdModal w) = Number_toString w"
  "geolocation (showUserIdModal w) = geolocation w"
  "geo (showUserIdModal w) = geo w"
  "requests (showUserIdModal w) = requests w"
  "nowISO (showUserIdModal w) = nowISO w"
  "nowLocale (showUserIdModal w) = nowLocale w"
  "statusLine (showUserIdModal w) = statusLine w"
  "validationMessage (showUserIdModal w) = validationMessage w"
  "startBtn_disabled (showUserIdModal w) = startBtn_disabled w"
  "stopBtn_disabled (showUserIdModal w) = stopBtn_disabled w"
  by (simp_all add: showUserIdModal_def)

lemma hideUserIdModal_frame [simp]:
  "isTracking (hideUserIdModal w) = isTracking w"
  "isInitialized (hideUserIdModal w) = isInitialized w"
  "userId (hideUserIdModal w) = userId w"
  "sessionCount (hideUserIdModal w) = sessionCount w"
  "locations (hideUserIdModal w) = locations w"
  "debugLogs (hideUserIdModal w) = debugLogs w"
  "lastLocation (hideUserIdModal w) = lastLocation w"
  "userIdSet (hideUserIdModal w) = userIdSet w"
  "trackingInterval (hideUserIdModal w) = trackingInterval w"
  "watchId (hideUserIdModal w) = watchId w"
  "localStorage (hideUserIdModal w) = localStorage w"
  "JSON_parse (hideUserIdModal w) = JSON_parse w"
  "Number_toString (hideUserIdModal w) = Number_toString w"
  "geolocation (hideUserIdModal w) = geolocation w"
  "geo (hideUserIdModal w) = geo w"
  "requests (hideUserIdModal w) = requests w"
  "nowISO (hideUserIdModal w) = nowISO w"
  "nowLocale (hideUserIdModal w) = nowLocale w"
  "statusLine (hideUserIdModal w) = statusLine w"
  "validationMessage (hideUserIdModal w) = validationMessage w"
  "startBtn_disabled (hideUserIdModal w) = startBtn_disabled w"
  "stopBtn_disabled (hideUserIdModal w) = stopBtn_disabled w"
  by (simp_all add: hideUserIdModal_def)

lemma setItem_frame [simp]:
  "isTracking (setItem k v w) = isTracking w"
  "isInitialized (setItem k v w) = isInitialized w"
  "userId (setItem k v w) = userId w"
  "sessionCount (setItem k v w) = sessionCount w"
  "locations (setItem k v w) = locations w"
  "debugLogs (setItem k v w) = debugLogs w"
  "lastLocation (setItem k v w) = lastLocation w"
  "userIdSet (setItem k v w) = userIdSet w"
  "trackingInterval (setItem k v w) = trackingInterval w"
  "watchId (setItem k v w) = watchId w"
  "JSON_parse (setItem k v w) = JSON_parse w"
  "Number_toString (setItem k v w) = Number_toString w"
  "geolocation (setItem k v w) = geolocation w"
  "geo (setItem k v w) = geo w"
  "requests (setItem k v w) = requests w"
  "nowISO (setItem k v w) = nowISO w"
  "nowLocale (setItem k v w) = nowLocale w"
  "statusLine (setItem k v w) = statusLine w"
  "validationMessage (setItem k v w) = validationMessage w"
  "modalShown (setItem k v w) = modalShown w"
  "startBtn_disabled (setItem k v w) = startBtn_disabled w"
  "stopBtn_disabled (setItem k v w) = stopBtn_disabled w"
  by (simp_all add: setItem_def)

lemma addLocationLog_frame [simp]:
  "isTracking (addLocationLog d w) = isTracking w"
  "isInitialized (addLocationLog d w) = isInitialized w"
  "userId (addLocationLog d w) = userId w"
  "sessionCount (addLocationLog d w) = sessionCount w"
  "debugLogs (addLocationLog d w) = debugLogs w"
  "lastLocation (addLocationLog d w) = lastLocation w"
  "userIdSet (addLocationLog d w) = userIdSet w"
  "trackingInterval (addLocationLog d w) = trackingInterval w"
  "watchId (addLocationLog d w) = watchId w"
  "localStorage (addLocationLog d w) = localStorage w"
  "JSON_parse (addLocationLog d w) = JSON_parse w"
  "Number_toString (addLocationLog d w) = Number_toString w"
  "geolocation (addLocationLog d w) = geolocation w"
  "geo (addLocationLog d w) = geo w"
  "requests (addLocationLog d w) = requests w"
  "nowISO (addLocationLog d w) = nowISO w"
  "nowLocale (addLocationLog d w) = nowLocale w"
  "statusLine (addLocationLog d w) = statusLine w"
  "validationMessage (addLocationLog d w) = validationMessage w"
  "modalShown (addLocationLog d w) = modalShown w"
  "startBtn_disabled (addLocationLog d w) = startBtn_disabled w"
  "stopBtn_disabled (addLocationLog d w) = stopBtn_disabled w"
  by (simp_all add: addLocationLog_def)

lemma status_after [simp]:
  "statusLine (setStatus m t w) = Some (m, t)"
  "statusLine (showValidationError m w) = Some (m, Error)"
  by (simp_all add: setStatus_def showValidationError_def)

lemma storage_after [simp]: "localStorage (setItem k v w) = (localStorage w)(k \<mapsto> v)"
  by (simp add: setItem_def)

lemma locations_after [simp]: "locations (addLocationLog d w) = locations w @ [d]"
  by (simp add: addLocationLog_def)

lemma getItem_or_cong:
  "localStorage w' = localStorage w \<Longrightarrow> getItem_or w' k d = getItem_or w k d"
  by (simp add: getItem_or_def)

subsection \<open>The debug log\<close>

lemma debug_logs:
  "debugLogs (debug m t w) =
     (let logs = debugLogs w @ [\<lparr>le_message = m, le_type = t, le_timestamp = nowLocale w\<rparr>]
      in if length logs > maxDebugLogs then tl logs else logs)"
  by (simp add: debug_def Let_def)

lemma debug_logs_drop:
  assumes "length (debugLogs w) \<le> maxDebugLogs"
  shows "debugLogs (debug m t w) =
     drop (length (debugLogs w) + 1 - maxDebugLogs)
       (debugLogs w @ [\<lparr>le_message = m, le_type = t, le_timestamp = nowLocale w\<rparr>])"
proof (cases "length (debugLogs w) = maxDebugLogs")
  case True
  then have "debugLogs w \<noteq> []" by (auto simp: maxDebugLogs_def)
  with True show ?thesis by (simp add: debug_logs Let_def drop_Suc maxDebugLogs_def)
next
  case False
  with assms have "length (debugLogs w) < maxDebugLogs" by simp
  then show ?thesis by (simp add: debug_logs Let_def)
qed

lemma debug_logs_bound:
  "length (debugLogs w) \<le> maxDebugLogs \<Longrightarrow> length (debugLogs (debug m t w)) \<le> maxDebugLogs"
  by (simp add: debug_logs Let_def)

lemma drop_drop_append:
  "k \<le> length xs \<Longrightarrow> drop a (drop k xs @ ys) = drop (a + k) (xs @ ys)"
  by (simp add: add.commute)

lemma debug_all_logs:
  "length (debugLogs w) \<le> maxDebugLogs \<Longrightarrow>
   debugLogs (debug_all cs w) =
     drop (length (debugLogs w) + length cs - maxDebugLogs) (debugLogs w @ map entry_of cs)"
proof (induction cs arbitrary: w)
  case Nil
  then show ?case by simp
next
  case (Cons c cs)
  obtain ts m t where c: "c = (ts, m, t)" by (cases c) auto
  let ?w = "w\<lparr>nowLocale := ts\<rparr>"
  let ?e = "\<lparr>le_message = m, le_type = t, le_timestamp = ts\<rparr>"
  let ?k = "length (debugLogs w) + 1 - maxDebugLogs"
  let ?logs = "debugLogs (debug m t ?w)"
  have len: "length (debugLogs ?w) \<le> maxDebugLogs" using Cons.prems by simp
  have one: "?logs = drop ?k (debugLogs w @ [?e])"
    using debug_logs_drop [OF len, of m t] by simp
  have bound: "length ?logs \<le> maxDebugLogs"
    using debug_logs_bound [OF len] .
  have k: "?k \<le> length (debugLogs w @ [?e])" by simp
  have sum: "length ?logs + length cs - maxDebugLogs + ?k =
             length (debugLogs w) + length (c # cs) - maxDebugLogs"
    using Cons.prems by (simp add: one)
  have "debugLogs (debug_all (c # cs) w) = debugLogs (debug_all cs (debug m t ?w))"
    by (simp add: c)
  also have "\<dots> = drop (length ?logs + length cs - maxDebugLogs) (?logs @ map entry_of cs)"
    using Cons.IH [OF bound] .
  also have "\<dots> = drop (length ?logs + length cs - maxDebugLogs)
                     (drop ?k (debugLogs w @ [?e]) @ map entry_of cs)"
    using one by simp
  also have "\<dots> = drop (length ?logs + length cs - maxDebugLogs + ?k)
                     ((debugLogs w @ [?e]) @ map entry_of cs)"
    using drop_drop_append [OF k] .
  also have "\<dots> = drop (length (debugLogs w) + length (c # cs) - maxDebugLogs)
                     (debugLogs w @ map entry_of (c # cs))"
    using sum by (simp add: c)
  finally show ?case .
qed

subsection \<open>Delivery, step by step\<close>

lemma payload_cong: "userId w' = userId w \<Longrightarrow> payload d w' = payload d w"
  by (simp add: payload_def)

lemma request_frame [simp]:
  "isTracking (sendToBackend_request d w) = isTracking w"
  "isInitialized (sendToBackend_request d w) = isInitialized w"
  "userId (sendToBackend_request d w) = userId w"
  "sessionCount (sendToBackend_request d w) = sessionCount w"
  "locations (sendToBackend_request d w) = locations w"
  "lastLocation (sendToBackend_request d w) = lastLocation w"
  "userIdSet (sendToBackend_request d w) = userIdSet w"
  "trackingInterval (sendToBackend_request d w) = trackingInterval w"
  "watchId (sendToBackend_request d w) = watchId w"
  "localStorage (sendToBackend_request d w) = localStorage w"
  "JSON_parse (sendToBackend_request d w) = JSON_parse w"
  "Number_toString (sendToBackend_request d w) = Number_toString w"
  "geolocation (sendToBackend_request d w) = geolocation w"
  "geo (sendToBackend_request d w) = geo w"
  "requests (sendToBackend_request d w) = requests w @ [POST backendUrl (payload d w)]"
  "nowISO (sendToBackend_request d w) = nowISO w"
  "nowLocale (sendToBackend_request d w) = nowLocale w"
  "statusLine (sendToBackend_request d w) = statusLine w"
  "validationMessage (sendToBackend_request d w) = validationMessage w"
  "modalShown (sendToBackend_request d w) = modalShown w"
  "startBtn_disabled (sendToBackend_request d w) = startBtn_disabled w"
  "stopBtn_disabled (sendToBackend_request d w) = stopBtn_disabled w"
  by (simp_all add: sendToBackend_request_def Let_def)

lemma catch_frame [simp]:
  "isTracking (sendToBackend_catch e d w) = isTracking w"
  "isInitialized (sendToBackend_catch e d w) = isInitialized w"
  "userId (sendToBackend_catch e d w) = userId w"
  "sessionCount (sendToBackend_catch e d w) = sessionCount w"
  "locations (sendToBackend_catch e d w) = locations w @ [d]"
  "lastLocation (sendToBackend_catch e d w) = lastLocation w"
  "userIdSet (sendToBackend_catch e d w) = userIdSet w"
  "trackingInterval (sendToBackend_catch e d w) = trackingInterval w"
  "watchId (sendToBackend_catch e d w) = watchId w"
  "localStorage (sendToBackend_catch e d w) = localStorage w"
  "JSON_parse (sendToBackend_catch e d w) = JSON_parse w"
  "Number_toString (sendToBackend_catch e d w) = Number_toString w"
  "geolocation (sendToBackend_catch e d w) = geolocation w"
  "geo (sendToBackend_catch e d w) = geo w"
  "requests (sendToBackend_catch e d w) = requests w"
  "nowISO (sendToBackend_catch e d w) = nowISO w"
  "nowLocale (sendToBackend_catch e d w) = nowLocale w"
  "statusLine (sendToBackend_catch e d w) = statusLine w"
  "validationMessage (sendToBackend_catch e d w) = validationMessage w"
  "modalShown (sendToBackend_catch e d w) = modalShown w"
  "startBtn_disabled (sendToBackend_catch e d w) = startBtn_disabled w"
  "stopBtn_disabled (sendToBackend_catch e d w) = stopBtn_disabled w"
  by (simp_all add: sendToBackend_catch_def)

lemma response_frame [simp]:
  "isTracking (sendToBackend_response d r w) = isTracking w"
  "isInitialized (sendToBackend_response d r w) = isInitialized w"
  "userId (sendToBackend_response d r w) = userId w"
  "sessionCount (sendToBackend_response d r w) = sessionCount w"
  "locations (sendToBackend_response d r w) = locations w @ [d]"
  "lastLocation (sendToBackend_response d r w) = lastLocation w"
  "userIdSet (sendToBackend_response d r w) = userIdSet w"
  "trackingInterval (sendToBackend_response d r w) = trackingInterval w"
  "watchId (sendToBackend_response d r w) = watchId w"
  "localStorage (sendToBackend_response d r w) = localStorage w"
  "JSON_parse (sendToBackend_response d r w) = JSON_parse w"
  "Number_toString (sendToBackend_response d r w) = Number_toString w"
  "geolocation (sendToBackend_response d r w) = geolocation w"
  "geo (sendToBackend_response d r w) = geo w"
  "requests (sendToBackend_response d r w) = requests w"
  "nowISO (sendToBackend_response d r w) = nowISO w"
  "nowLocale (sendToBackend_response d r w) = nowLocale w"
  "statusLine (sendToBackend_response d r w) = statusLine w"
  "validationMessage (sendToBackend_response d r w) = validationMessage w"
  "modalShown (sendToBackend_response d r w) = modalShown w"
  "startBtn_disabled (sendToBackend_response d r w) = startBtn_disabled w"
  "stopBtn_disabled (sendToBackend_response d r w) = stopBtn_disabled w"
  by (simp_all add: sendToBackend_response_def split: remote.split body.split)

lemma onLocationSuccess_frame [simp]:
  "isTracking (onLocationSuccess c w) = isTracking w"
  "isInitialized (onLocationSuccess c w) = isInitialized w"
  "userId (onLocationSuccess c w) = userId w"
  "sessionCount (onLocationSuccess c w) = sessionCount w"
  "locations (onLocationSuccess c w) = locations w"
  "lastLocation (onLocationSuccess c w) = Some (sample c w)"
  "userIdSet (onLocationSuccess c w) = userIdSet w"
  "trackingInterval (onLocationSuccess c w) = trackingInterval w"
  "watchId (onLocationSuccess c w) = watchId w"
  "localStorage (onLocationSuccess c w) = localStorage w"
  "JSON_parse (onLocationSuccess c w) = JSON_parse w"
  "Number_toString (onLocationSuccess c w) = Number_toString w"
  "geolocation (onLocationSuccess c w) = geolocation w"
  "geo (onLocationSuccess c w) = geo w"
  "requests (onLocationSuccess c w) = requests w @ [POST backendUrl (payload (sample c w) w)]"
  "nowISO (onLocationSuccess c w) = nowISO w"
  "nowLocale (onLocationSuccess c w) = nowLocale w"
  "statusLine (onLocationSuccess c w) = statusLine w"
  "validationMessage (onLocationSuccess c w) = validationMessage w"
  "modalShown (onLocationSuccess c w) = modalShown w"
  "startBtn_disabled (onLocationSuccess c w) = startBtn_disabled w"
  "stopBtn_disabled (onLocationSuccess c w) = stopBtn_disabled w"
  by (simp_all add: onLocationSuccess_def Let_def payload_def)

subsection \<open>Submission, step by step\<close>

lemma examples_text:
  "trim ''alice'' = ''alice''" "trim ''bob_1'' = ''bob_1''" "trim ''ab'' = ''ab''"
  "trim '' a b '' = ''a b''"
  "well_formed ''alice''" "well_formed ''bob_1''" "\<not> well_formed ''ab''"
  "\<not> well_formed ''a b''"
  "parseInt ''0'' = Num 0" "parseInt ''7'' = Num 7"
  "String_of pr (Num 1) = ''1''"
  by code_simp+

lemma not_well_formed_empty [simp]: "\<not> well_formed []"
  by (simp add: well_formed_def regex_test_def)

lemma submit_request_invalid:
  "\<not> well_formed (trim raw) \<Longrightarrow>
   submitUserId_request raw w =
     (let m = (if trim raw = [] then Msg ''Please enter a User ID'' []
               else Msg ''Invalid User ID format'' [])
      in (showValidationError m w, Inl (InvalidFormat m)))"
  by (simp add: submitUserId_request_def well_formed_def Let_def)

lemma submit_request_valid:
  "well_formed (trim raw) \<Longrightarrow>
   submitUserId_request raw w =
     ((setStatus (Msg ''Checking User ID...'' []) Info
         (debug (Msg ''Checking User ID availability: ${userId}'' [AStr (trim raw)]) Info w))
      \<lparr>requests := requests w @ [GET (historyUrl (trim raw))]\<rparr>,
      Inr (trim raw))"
  by (auto simp add: submitUserId_request_def well_formed_def Let_def)

lemma submit_request_frame [simp]:
  "isTracking (fst (submitUserId_request raw w)) = isTracking w"
  "isInitialized (fst (submitUserId_request raw w)) = isInitialized w"
  "userId (fst (submitUserId_request raw w)) = userId w"
  "sessionCount (fst (submitUserId_request raw w)) = sessionCount w"
  "locations (fst (submitUserId_request raw w)) = locations w"
  "lastLocation (fst (submitUserId_request raw w)) = lastLocation w"
  "userIdSet (fst (submitUserId_request raw w)) = userIdSet w"
  "trackingInterval (fst (submitUserId_request raw w)) = trackingInterval w"
  "watchId (fst (submitUserId_request raw w)) = watchId w"
  "localStorage (fst (submitUserId_request raw w)) = localStorage w"
  "JSON_parse (fst (submitUserId_request raw w)) = JSON_parse w"
  "Number_toString (fst (submitUserId_request raw w)) = Number_toString w"
  "geolocation (fst (submitUserId_request raw w)) = geolocation w"
  "geo (fst (submitUserId_request raw w)) = geo w"
  "nowISO (fst (submitUserId_request raw w)) = nowISO w"
  "nowLocale (fst (submitUserId_request raw w)) = nowLocale w"
  "modalShown (fst (submitUserId_request raw w)) = modalShown w"
  "startBtn_disabled (fst (submitUserId_request raw w)) = startBtn_disabled w"
  "stopBtn_disabled (fst (submitUserId_request raw w)) = stopBtn_disabled w"
  by (simp_all add: submitUserId_request_def Let_def)

lemma submit_accept_fields [simp]:
  "isTracking (submit_accept u w) = isTracking w"
  "isInitialized (submit_accept u w) = True"
  "userId (submit_accept u w) = Some u"
  "sessionCount (submit_accept u w) = parseInt (getItem_or w (''session_count_'' @ u) ''0'')"
  "locations (submit_accept u w) = locations w"
  "lastLocation (submit_accept u w) = lastLocation w"
  "userIdSet (submit_accept u w) = True"
  "trackingInterval (submit_accept u w) = trackingInterval w"
  "watchId (submit_accept u w) = watchId w"
  "localStorage (submit_accept u w) = (localStorage w)(''current_user_id'' \<mapsto> u)"
  "JSON_parse (submit_accept u w) = JSON_parse w"
  "Number_toString (submit_accept u w) = Number_toString w"
  "geolocation (submit_accept u w) = geolocation w"
  "geo (submit_accept u w) = geo w"
  "requests (submit_accept u w) = requests w"
  "nowISO (submit_accept u w) = nowISO w"
  "nowLocale (submit_accept u w) = nowLocale w"
  "statusLine (submit_accept u w) = Some (Msg ''Ready to track'' [], Success)"
  "validationMessage (submit_accept u w) = validationMessage w"
  "startBtn_disabled (submit_accept u w) = startBtn_disabled w"
  "stopBtn_disabled (submit_accept u w) = stopBtn_disabled w"
  by (simp_all add: submit_accept_def Let_def getItem_or_def hideUserIdModal_def)

lemma submit_catch_frame [simp]:
  "isTracking (fst (submit_catch e u w)) = isTracking w"
  "sessionCount (fst (submit_catch e u w)) = sessionCount w"
  "locations (fst (submit_catch e u w)) = locations w"
  "lastLocation (fst (submit_catch e u w)) = lastLocation w"
  "trackingInterval (fst (submit_catch e u w)) = trackingInterval w"
  "watchId (fst (submit_catch e u w)) = watchId w"
  "JSON_parse (fst (submit_catch e u w)) = JSON_parse w"
  "Number_toString (fst (submit_catch e u w)) = Number_toString w"
  "geolocation (fst (submit_catch e u w)) = geolocation w"
  "geo (fst (submit_catch e u w)) = geo w"
  "requests (fst (submit_catch e u w)) = requests w"
  "nowISO (fst (submit_catch e u w)) = nowISO w"
  "nowLocale (fst (submit_catch e u w)) = nowLocale w"
  "startBtn_disabled (fst (submit_catch e u w)) = startBtn_disabled w"
  "stopBtn_disabled (fst (submit_catch e u w)) = stopBtn_disabled w"
  by (simp_all add: submit_catch_def Let_def split: local_data.split)

lemma submit_catch_storage:
  "localStorage (fst (submit_catch e u w)) = localStorage w \<or>
   localStorage (fst (submit_catch e u w)) = (localStorage w)(''current_user_id'' \<mapsto> u)"
  by (simp add: submit_catch_def Let_def split: local_data.split)

lemma submit_response_frame [simp]:
  "isTracking (fst (submitUserId_response u r w)) = isTracking w"
  "locations (fst (submitUserId_response u r w)) = locations w"
  "lastLocation (fst (submitUserId_response u r w)) = lastLocation w"
  "trackingInterval (fst (submitUserId_response u r w)) = trackingInterval w"
  "watchId (fst (submitUserId_response u r w)) = watchId w"
  "JSON_parse (fst (submitUserId_response u r w)) = JSON_parse w"
  "Number_toString (fst (submitUserId_response u r w)) = Number_toString w"
  "geolocation (fst (submitUserId_response u r w)) = geolocation w"
  "geo (fst (submitUserId_response u r w)) = geo w"
  "requests (fst (submitUserId_response u r w)) = requests w"
  "nowISO (fst (submitUserId_response u r w)) = nowISO w"
  "nowLocale (fst (submitUserId_response u r w)) = nowLocale w"
  "startBtn_disabled (fst (submitUserId_response u r w)) = startBtn_disabled w"
  "stopBtn_disabled (fst (submitUserId_response u r w)) = stopBtn_disabled w"
  by (simp_all add: submitUserId_response_def split: remote.split body.split)

lemma submit_response_failed:
  "lookup_failed r \<Longrightarrow>
   \<exists>e. submitUserId_response u r w = submit_catch e u w"
  by (cases r rule: lookup_failed.cases) (auto simp add: submitUserId_response_def)

lemma submit_response_answered:
  "submitUserId_response u (Replied status text (Parsed data)) w =
     (if ok status \<and> truthy data \<and> isArray data \<and> array_length data > 0 then
        (debug (Msg ''User ID '${userId}' already in use'' [AStr u]) Warning
           (showValidationError
              (Msg ''User ID '${userId}' already exists with ${data.length} tracking records. Please use a different User ID.''
                 [AStr u, ANat (array_length data)]) w),
         AlreadyTaken (array_length data))
      else (submit_accept u w, Accepted))"
  by (simp add: submitUserId_response_def)

lemma submit_response_bad_status:
  "\<not> ok status \<Longrightarrow>
   submitUserId_response u (Replied status text b) w = (submit_accept u w, Accepted)"
  by (simp add: submitUserId_response_def)

lemma submitUserId_valid:
  "well_formed (trim raw) \<Longrightarrow>
   submitUserId raw r w =
     submitUserId_response (trim raw) r (fst (submitUserId_request raw w))"
  by (simp add: submitUserId_def submit_request_valid)

lemma submitUserId_invalid:
  "\<not> well_formed (trim raw) \<Longrightarrow> submitUserId raw r w = 
     (fst (submitUserId_request raw w),
      InvalidFormat (if trim raw = [] then Msg ''Please enter a User ID'' []
               else Msg ''Invalid User ID format'' []))"
  by (simp add: submitUserId_def submit_request_invalid Let_def)

lemma constructed [simp]:
  "isTracking (constructor q b) = False"
  "isInitialized (constructor q b) = False"
  "userId (constructor q b) = None"
  "sessionCount (constructor q b) = Num 0"
  "locations (constructor q b) = []"
  "lastLocation (constructor q b) = None"
  "userIdSet (constructor q b) = False"
  "trackingInterval (constructor q b) = None"
  "watchId (constructor q b) = None"
  "localStorage (constructor q b) = localStorage b"
  "JSON_parse (constructor q b) = JSON_parse b"
  "Number_toString (constructor q b) = Number_toString b"
  "geolocation (constructor q b) = geolocation b"
  "geo (constructor q b) = geo b"
  "requests (constructor q b) = requests b"
  "nowISO (constructor q b) = nowISO b"
  "nowLocale (constructor q b) = nowLocale b"
  "validationMessage (constructor q b) = validationMessage b"
  "startBtn_disabled (constructor q b) = startBtn_disabled b"
  "stopBtn_disabled (constructor q b) = stopBtn_disabled b"
  by (simp_all add: constructor_def init_def checkPermissions_def updatePermissionStatus_def
        Let_def split: permission_query.split)

lemma browser0_fields [simp]:
  "localStorage browser0 = Map.empty"
  "JSON_parse browser0 = parse0"
  "geolocation browser0 = True"
  "geo browser0 = \<lparr>live = [], next_handle = 1, cleared = []\<rparr>"
  "requests browser0 = []"
  "nowISO browser0 = ''2024-05-01T10:00:00.000Z''"
  "nowLocale browser0 = ''10:00:00 AM''"
  "validationMessage browser0 = None"
  "startBtn_disabled browser0 = False"
  "stopBtn_disabled browser0 = True"
  by (simp_all add: browser0_def)

lemma tracker0_fields [simp]:
  "isTracking tracker0 = False"
  "userId tracker0 = Some ''alice''"
  "userIdSet tracker0 = True"
  "isInitialized tracker0 = True"
  "sessionCount tracker0 = Num 0"
  "locations tracker0 = []"
  "lastLocation tracker0 = None"
  "watchId tracker0 = None"
  "trackingInterval tracker0 = None"
  "geolocation tracker0 = True"
  "geo tracker0 = \<lparr>live = [], next_handle = 1, cleared = []\<rparr>"
  "JSON_parse tracker0 = parse0"
  "localStorage tracker0 = [''current_user_id'' \<mapsto> ''alice'']"
  "requests tracker0 = [GET (historyUrl ''alice'')]"
  "nowISO tracker0 = ''2024-05-01T10:00:00.000Z''"
  "nowLocale tracker0 = ''10:00:00 AM''"
  "statusLine tracker0 = Some (Msg ''Ready to track'' [], Success)"
  by (simp_all add: tracker0_def submitUserId_valid examples_text submit_response_answered
        getItem_or_def submit_request_valid)

subsection \<open>Tracking, step by step\<close>

lemma startTracking_frame [simp]:
  "isInitialized (startTracking w) = isInitialized w"
  "userId (startTracking w) = userId w"
  "locations (startTracking w) = locations w"
  "lastLocation (startTracking w) = lastLocation w"
  "userIdSet (startTracking w) = userIdSet w"
  "trackingInterval (startTracking w) = trackingInterval w"
  "JSON_parse (startTracking w) = JSON_parse w"
  "Number_toString (startTracking w) = Number_toString w"
  "geolocation (startTracking w) = geolocation w"
  "requests (startTracking w) = requests w"
  "nowISO (startTracking w) = nowISO w"
  "nowLocale (startTracking w) = nowLocale w"
  "validationMessage (startTracking w) = validationMessage w"
  by (simp_all add: startTracking_def Let_def split: prod.split)

lemma stopTracking_frame [simp]:
  "isInitialized (fst (stopTracking w)) = isInitialized w"
  "userId (fst (stopTracking w)) = userId w"
  "sessionCount (fst (stopTracking w)) = sessionCount w"
  "locations (fst (stopTracking w)) = locations w"
  "lastLocation (fst (stopTracking w)) = lastLocation w"
  "userIdSet (fst (stopTracking w)) = userIdSet w"
  "localStorage (fst (stopTracking w)) = localStorage w"
  "JSON_parse (fst (stopTracking w)) = JSON_parse w"
  "Number_toString (fst (stopTracking w)) = Number_toString w"
  "geolocation (fst (stopTracking w)) = geolocation w"
  "requests (fst (stopTracking w)) = requests w"
  "nowISO (fst (stopTracking w)) = nowISO w"
  "nowLocale (fst (stopTracking w)) = nowLocale w"
  "validationMessage (fst (stopTracking w)) = validationMessage w"
  "modalShown (fst (stopTracking w)) = modalShown w"
  by (simp_all add: stopTracking_def Let_def split: option.split)

lemma onLocationError_frame [simp]:
  "isInitialized (fst (onLocationError code w)) = isInitialized w"
  "userId (fst (onLocationError code w)) = userId w"
  "sessionCount (fst (onLocationError code w)) = sessionCount w"
  "locations (fst (onLocationError code w)) = locations w"
  "lastLocation (fst (onLocationError code w)) = lastLocation w"
  "userIdSet (fst (onLocationError code w)) = userIdSet w"
  "localStorage (fst (onLocationError code w)) = localStorage w"
  "JSON_parse (fst (onLocationError code w)) = JSON_parse w"
  "Number_toString (fst (onLocationError code w)) = Number_toString w"
  "geolocation (fst (onLocationError code w)) = geolocation w"
  "requests (fst (onLocationError code w)) = requests w"
  "nowISO (fst (onLocationError code w)) = nowISO w"
  "nowLocale (fst (onLocationError code w)) = nowLocale w"
  "validationMessage (fst (onLocationError code w)) = validationMessage w"
  "modalShown (fst (onLocationError code w)) = modalShown w"
  by (simp_all add: onLocationError_def Let_def)

lemma getLocation_frame [simp]:
  "isTracking (getLocation w) = isTracking w"
  "isInitialized (getLocation w) = isInitialized w"
  "userId (getLocation w) = userId w"
  "sessionCount (getLocation w) = sessionCount w"
  "locations (getLocation w) = locations w"
  "lastLocation (getLocation w) = lastLocation w"
  "userIdSet (getLocation w) = userIdSet w"
  "trackingInterval (getLocation w) = trackingInterval w"
  "watchId (getLocation w) = watchId w"
  "localStorage (getLocation w) = localStorage w"
  "JSON_parse (getLocation w) = JSON_parse w"
  "Number_toString (getLocation w) = Number_toString w"
  "geolocation (getLocation w) = geolocation w"
  "geo (getLocation w) = geo w"
  "requests (getLocation w) = requests w"
  "nowISO (getLocation w) = nowISO w"
  "nowLocale (getLocation w) = nowLocale w"
  "statusLine (getLocation w) = statusLine w"
  "validationMessage (getLocation w) = validationMessage w"
  "modalShown (getLocation w) = modalShown w"
  "startBtn_disabled (getLocation w) = startBtn_disabled w"
  "stopBtn_disabled (getLocation w) = stopBtn_disabled w"
  by (simp_all add: getLocation_def)

lemma updatePermissionStatus_frame [simp]:
  "isTracking (updatePermissionStatus p w) = isTracking w"
  "isInitialized (updatePermissionStatus p w) = isInitialized w"
  "userId (updatePermissionStatus p w) = userId w"
  "sessionCount (updatePermissionStatus p w) = sessionCount w"
  "locations (updatePermissionStatus p w) = locations w"
  "lastLocation (updatePermissionStatus p w) = lastLocation w"
  "userIdSet (updatePermissionStatus p w) = userIdSet w"
  "trackingInterval (updatePermissionStatus p w) = trackingInterval w"
  "watchId (updatePermissionStatus p w) = watchId w"
  "localStorage (updatePermissionStatus p w) = localStorage w"
  "JSON_parse (updatePermissionStatus p w) = JSON_parse w"
  "Number_toString (updatePermissionStatus p w) = Number_toString w"
  "geolocation (updatePermissionStatus p w) = geolocation w"
  "geo (updatePermissionStatus p w) = geo w"
  "requests (updatePermissionStatus p w) = requests w"
  "nowISO (updatePermissionStatus p w) = nowISO w"
  "nowLocale (updatePermissionStatus p w) = nowLocale w"
  "statusLine (updatePermissionStatus p w) = statusLine w"
  "validationMessage (updatePermissionStatus p w) = validationMessage w"
  "modalShown (updatePermissionStatus p w) = modalShown w"
  "startBtn_disabled (updatePermissionStatus p w) = startBtn_disabled w"
  "stopBtn_disabled (updatePermissionStatus p w) = stopBtn_disabled w"
  by (simp_all add: updatePermissionStatus_def)

lemma stopTracking_idle:
  "\<not> isTracking w \<Longrightarrow> stopTracking w = (debug (Msg ''Tracking not active'' []) Warning w, None)"
  by (simp add: stopTracking_def)

lemma stopTracking_active:
  assumes "isTracking w" and "geolocation w \<or> watchId w = None"
  shows "snd (stopTracking w) = None"
    and "isTracking (fst (stopTracking w)) = False"
    and "watchId (fst (stopTracking w)) = None"
    and "geo (fst (stopTracking w)) =
           (case watchId w of None \<Rightarrow> geo w | Some h \<Rightarrow> clearWatch h (geo w))"
  using assms by (auto simp add: stopTracking_def Let_def split: option.split)

lemma onLocationError_other:
  "code \<noteq> 1 \<Longrightarrow>
   onLocationError code w =
     (setStatus (errorMessages code) Error (debug (errorMessages code) Error w), None)"
  by (simp add: onLocationError_def Let_def)

lemma onLocationError_denied:
  "onLocationError 1 w =
     stopTracking (setStatus (errorMessages 1) Error (debug (errorMessages 1) Error w))"
  by (simp add: onLocationError_def Let_def)

lemma id_text_simps [simp]: "id_text None = ''null''" "id_text (Some u) = u"
  by (simp_all add: id_text_def)

lemma startTracking_guarded:
  "\<not> userIdSet w \<or> isTracking w \<Longrightarrow>
   sessionCount (startTracking w) = sessionCount w \<and>
   localStorage (startTracking w) = localStorage w \<and>
   geo (startTracking w) = geo w \<and>
   watchId (startTracking w) = watchId w \<and>
   isTracking (startTracking w) = isTracking w"
  by (auto simp add: startTracking_def)

lemma startTracking_idle:
  assumes "userIdSet w" and "\<not> isTracking w"
  shows "isTracking (startTracking w) = True"
    and "sessionCount (startTracking w) = increment (sessionCount w)"
    and "localStorage (startTracking w) =
           (localStorage w)(''session_count_'' @ id_text (userId w) \<mapsto>
              String_of (Number_toString w) (increment (sessionCount w)))"
    and "watchId (startTracking w) =
           (if geolocation w then Some (next_handle (geo w)) else watchId w)"
    and "geo (startTracking w) =
           (if geolocation w then snd (watchPosition (geo w)) else geo w)"
  using assms by (simp_all add: startTracking_def Let_def watchPosition_def)

lemma to_double_small: "\<bar>k\<bar> < 2 ^ 53 \<Longrightarrow> to_double k = Num k"
  by (simp add: to_double_def)

lemma to_double_top: "to_double 9007199254740992 = Num 9007199254740992"
  by code_simp

lemma increment_exact:
  assumes "- (2 ^ 53) \<le> n" and "n < 2 ^ 53"
  shows "increment (Num n) = Num (n + 1)"
proof (cases "n + 1 = 2 ^ 53")
  case True
  then show ?thesis using to_double_top by simp
next
  case False
  with assms have "\<bar>n + 1\<bar> < 2 ^ 53" by simp
  then show ?thesis by (simp add: to_double_small)
qed

lemma counter_examples:
  "increment (Num 0) = Num 1" "increment (Num 1) = Num 2"
  "String_of pr (Num 1) = ''1''" "String_of pr (Num 2) = ''2''"
  "decimal_int 1 = ''1''" "decimal_int 2 = ''2''"
  by code_simp+

lemma tracking0_fields:
  "isTracking (startTracking tracker0) = True"
  "sessionCount (startTracking tracker0) = Num 1"
  "watchId (startTracking tracker0) = Some 1"
  "geo (startTracking tracker0) = \<lparr>live = [1], next_handle = 2, cleared = []\<rparr>"
  "localStorage (startTracking tracker0) =
     [''current_user_id'' \<mapsto> ''alice'', ''session_count_alice'' \<mapsto> ''1'']"
  by (simp_all add: startTracking_idle id_text_def watchPosition_def counter_examples
        del: increment.simps String_of.simps)

subsection \<open>The format check and the examples of a local history\<close>

lemma well_formed_iff:
  "well_formed u \<longleftrightarrow> u \<noteq> [] \<and> (\<forall>c \<in> set u. id_char c) \<and> 3 \<le> length u \<and> length u \<le> 50"
  by (auto simp add: well_formed_def regex_test_def list_all_iff)

lemma request_keeps_log:
  "JSON_parse (fst (submitUserId_request raw w))
     (getItem_or (fst (submitUserId_request raw w)) k d) = JSON_parse w (getItem_or w k d)"
  by (simp add: getItem_or_def)

lemma browser1_fields [simp]:
  "localStorage browser1 = [''tracking_data_bob_1'' \<mapsto> ''[{}]'']"
  "JSON_parse browser1 = parse0"
  "geolocation browser1 = True"
  "requests browser1 = []"
  by (simp_all add: browser1_def)

lemma parse0_examples [simp]:
  "parse0 ''[]'' = LArray []"
  "parse0 ''[{}]'' = LArray [JObj []]"
  by (simp_all add: parse0_def)

subsection \<open>What the end of a submission depends on\<close>



subsection \<open>The items a run writes\<close>

lemma tracking_key_fresh [simp]:
  "''session_count_'' @ x \<noteq> ''tracking_data_'' @ y"
  "''current_user_id'' \<noteq> ''tracking_data_'' @ y"
  "''tracking_data_'' @ y \<noteq> ''session_count_'' @ x"
  "''tracking_data_'' @ y \<noteq> ''current_user_id''"
  by simp_all

lemma startTracking_storage:
  "localStorage (startTracking w) = localStorage w \<or>
   localStorage (startTracking w) =
     (localStorage w)(''session_count_'' @ id_text (userId w) \<mapsto>
        String_of (Number_toString w) (increment (sessionCount w)))"
  by (simp add: startTracking_def Let_def split: prod.split)

lemma submit_response_storage:
  "localStorage (fst (submitUserId_response u r w)) = localStorage w \<or>
   localStorage (fst (submitUserId_response u r w)) = (localStorage w)(''current_user_id'' \<mapsto> u)"
  using submit_catch_storage [of _ u w]
  by (simp add: submitUserId_response_def split: remote.split body.split)

lemma step_keeps_history:
  assumes "k = ''tracking_data_'' @ i"
  shows "localStorage (step e w) k = localStorage w k"
proof (cases e)
  case (LookupSettled u r)
  then show ?thesis using assms submit_response_storage [of u r w] by auto
next
  case Start
  then show ?thesis using assms startTracking_storage [of w] by auto
qed simp_all

lemma run_keeps_history:
  assumes "k = ''tracking_data_'' @ i"
  shows "localStorage (run es w) k = localStorage w k"
  by (induction es arbitrary: w) (simp_all add: step_keeps_history [OF assms])

subsection \<open>The handle and the provider\<close>

lemma one_watch_cong:
  "isTracking w' = isTracking w \<Longrightarrow> watchId w' = watchId w \<Longrightarrow>
   geolocation w' = geolocation w \<Longrightarrow> geo w' = geo w \<Longrightarrow> one_watch w' = one_watch w"
  by (simp add: one_watch_def)

lemma one_watch_start: "one_watch w \<Longrightarrow> one_watch (startTracking w)"
proof (cases "\<not> userIdSet w \<or> isTracking w")
  case True
  assume "one_watch w"
  with startTracking_guarded [OF True] show ?thesis
    by (simp add: one_watch_def)
next
  case False
  assume "one_watch w"
  with False have "watchId w = None" "live (geo w) = []"
    by (auto simp add: one_watch_def)
  with False show ?thesis
    by (simp add: one_watch_def startTracking_idle watchPosition_def)
qed

lemma stopTracking_one_watch:
  assumes "one_watch w"
  shows "snd (stopTracking w) = None"
    and "watchId (fst (stopTracking w)) = None"
    and "live (geo (fst (stopTracking w))) = []"
    and "isTracking (fst (stopTracking w)) = False"
    and "cleared (geo (fst (stopTracking w))) =
           cleared (geo w) @ (case watchId w of None \<Rightarrow> [] | Some h \<Rightarrow> [h])"
proof -
  have idle: "\<not> isTracking w \<Longrightarrow> watchId w = None \<and> live (geo w) = []"
    using assms by (auto simp add: one_watch_def)
  have active: "isTracking w \<Longrightarrow> geolocation w \<or> watchId w = None"
    using assms by (auto simp add: one_watch_def)
  have lv: "live (geo w) = (case watchId w of None \<Rightarrow> [] | Some h \<Rightarrow> [h])"
    using assms by (simp add: one_watch_def)
  show "snd (stopTracking w) = None"
    using active by (cases "isTracking w") (simp_all add: stopTracking_idle stopTracking_active)
  show "watchId (fst (stopTracking w)) = None"
    using idle active
    by (cases "isTracking w") (simp_all add: stopTracking_idle stopTracking_active)
  show "isTracking (fst (stopTracking w)) = False"
    using active by (cases "isTracking w") (simp_all add: stopTracking_idle stopTracking_active)
  show "live (geo (fst (stopTracking w))) = []"
    using idle active lv
    by (cases "isTracking w")
       (auto simp add: stopTracking_idle stopTracking_active clearWatch_def split: option.splits)
  show "cleared (geo (fst (stopTracking w))) =
          cleared (geo w) @ (case watchId w of None \<Rightarrow> [] | Some h \<Rightarrow> [h])"
    using idle active
    by (cases "isTracking w")
       (auto simp add: stopTracking_idle stopTracking_active clearWatch_def split: option.splits)
qed

lemma one_watch_stop: "one_watch w \<Longrightarrow> one_watch (fst (stopTracking w))"
  using stopTracking_one_watch [of w] by (simp add: one_watch_def)

lemma one_watch_error: "one_watch w \<Longrightarrow> one_watch (fst (onLocationError code w))"
proof (cases "code = 1")
  case True
  assume "one_watch w"
  then have "one_watch (setStatus (errorMessages 1) Error (debug (errorMessages 1) Error w))"
    by (simp add: one_watch_def)
  from one_watch_stop [OF this] True show ?thesis
    by (simp only: onLocationError_denied)
next
  case False
  assume "one_watch w"
  with False show ?thesis by (simp add: onLocationError_other one_watch_def)
qed

lemma one_watch_step: "one_watch w \<Longrightarrow> one_watch (step e w)"
proof (cases e)
  case Start
  assume "one_watch w"
  with Start show ?thesis by (simp add: one_watch_start)
next
  case Stop
  assume "one_watch w"
  with Stop show ?thesis by (simp add: one_watch_stop)
next
  case (PositionError code)
  assume "one_watch w"
  with PositionError show ?thesis by (simp add: one_watch_error)
qed (simp_all add: one_watch_def)

lemma one_watch_run: "one_watch w \<Longrightarrow> one_watch (run es w)"
  by (induction es arbitrary: w) (simp_all add: one_watch_step)

lemma one_watch_constructor: "live (geo b) = [] \<Longrightarrow> one_watch (constructor q b)"
  by (simp add: one_watch_def)

subsection \<open>The local check\<close>

lemma submit_catch_exit:
  "snd (submit_catch e u w) =
     (case JSON_parse w (getItem_or w (''tracking_data_'' @ u) ''[]'') of
        SyntaxError m \<Rightarrow> Uncaught (PlatformError m)
      | LNull \<Rightarrow> Uncaught TypeError
      | LArray xs \<Rightarrow> if xs \<noteq> [] then AlreadyTakenLocally else AcceptedOffline
      | LOther b \<Rightarrow> if b then AlreadyTakenLocally else AcceptedOffline)"
  by (simp add: submit_catch_def Let_def getItem_or_def split: local_data.split)

lemma submit_catch_accepted:
  "snd (submit_catch e u w) = AcceptedOffline \<Longrightarrow>
   userId (fst (submit_catch e u w)) = Some u \<and>
   userIdSet (fst (submit_catch e u w)) = True \<and>
   isInitialized (fst (submit_catch e u w)) = True \<and>
   localStorage (fst (submit_catch e u w)) = (localStorage w)(''current_user_id'' \<mapsto> u) \<and>
   statusLine (fst (submit_catch e u w)) =
     Some (Msg ''Offline mode - Ready to track'' [], Warning)"
  by (simp add: submit_catch_def Let_def hideUserIdModal_def
        split: local_data.splits if_splits)

lemma submit_catch_refused:
  "snd (submit_catch e u w) \<noteq> AcceptedOffline \<Longrightarrow>
   userId (fst (submit_catch e u w)) = userId w \<and>
   userIdSet (fst (submit_catch e u w)) = userIdSet w \<and>
   isInitialized (fst (submit_catch e u w)) = isInitialized w \<and>
   localStorage (fst (submit_catch e u w)) = localStorage w"
  by (simp add: submit_catch_def Let_def split: local_data.splits if_splits)

section \<open>Properties\<close>

subsection \<open>Delivery\<close>

text \<open>
  C1. Every call of \<^verbatim>\<open>sendToBackend\<close> appends its sample to \<^verbatim>\<open>locations\<close> exactly once.
  The log after the call is the log before it with the sample at the end, whatever the
  request came to: \<^verbatim>\<open>fetch\<close> rejecting, a status outside 200..299, a body that does not
  parse, the body \<^verbatim>\<open>null\<close> (on which \<^verbatim>\<open>data.id\<close> throws), or success. The part of the
  method that runs before the request settles appends nothing, and the part that runs
  after it appends the sample once to the log as it is by then (\<open>w'\<close>), so the count
  does not depend on what else happened in between.
\<close>

theorem delivery_appends_exactly_once:
  "locations (sendToBackend d r w) = locations w @ [d] \<and>
   length (locations (sendToBackend d r w)) = length (locations w) + 1 \<and>
   locations (sendToBackend_request d w) = locations w \<and>
   locations (sendToBackend_response d r w') = locations w' @ [d]"
  by (simp add: sendToBackend_def)

theorem delivery_appends_exactly_once_witness:
  "locations (sendToBackend (sample coords0 tracker0) (Unreachable ''Failed to fetch'') tracker0)
     = [sample coords0 tracker0] \<and>
   locations (sendToBackend (sample coords0 tracker0)
                (Replied 200 ''OK'' (Parsed JNull)) tracker0)
     = [sample coords0 tracker0]"
proof -
  have "locations tracker0 = []"
    by (simp add: tracker0_fields)
  then show ?thesis
    using delivery_appends_exactly_once
            [of "sample coords0 tracker0" "Unreachable ''Failed to fetch''" tracker0]
          delivery_appends_exactly_once
            [of "sample coords0 tracker0" "Replied 200 ''OK'' (Parsed JNull)" tracker0]
    by simp
qed

text \<open>
  C8. The body of the request \<^verbatim>\<open>sendToBackend\<close> makes is an object with the five members
  \<^verbatim>\<open>user_id\<close>, \<^verbatim>\<open>latitude\<close>, \<^verbatim>\<open>longitude\<close>, \<^verbatim>\<open>accuracy\<close>, \<^verbatim>\<open>timestamp\<close> and no other; the
  last four are those of the sample being delivered, the first is the identity of the
  session. It has no member \<^verbatim>\<open>altitude\<close>, \<^verbatim>\<open>heading\<close> or \<^verbatim>\<open>speed\<close>, although the sample that
  \<^verbatim>\<open>onLocationSuccess\<close> builds, keeps as the last location and delivers has the three as
  the provider gave them. That request is the only one a delivery makes.
\<close>

theorem payload_five_fields:
  "requests (sendToBackend_request d w) = requests w @ [POST backendUrl (payload d w)] \<and>
   requests (sendToBackend_response d r w) = requests w \<and>
   keys (payload d w) = [''user_id'', ''latitude'', ''longitude'', ''accuracy'', ''timestamp''] \<and>
   member ''user_id'' (payload d w) = Some (case userId w of None \<Rightarrow> JNull | Some u \<Rightarrow> JStr u) \<and>
   member ''latitude'' (payload d w) = Some (JNum (latitude d)) \<and>
   member ''longitude'' (payload d w) = Some (JNum (longitude d)) \<and>
   member ''accuracy'' (payload d w) = Some (JNum (accuracy d)) \<and>
   member ''timestamp'' (payload d w) = Some (JStr (timestamp d)) \<and>
   member ''altitude'' (payload d w) = None \<and>
   member ''heading'' (payload d w) = None \<and>
   member ''speed'' (payload d w) = None \<and>
   requests (onLocationSuccess c w) =
     requests w @ [POST backendUrl (payload (sample c w) w)] \<and>
   lastLocation (onLocationSuccess c w) = Some (sample c w) \<and>
   altitude (sample c w) = c_altitude c \<and>
   heading (sample c w) = c_heading c \<and>
   speed (sample c w) = c_speed c"
  by (simp add: payload_def sample_def)

theorem payload_five_fields_witness:
  "requests (onLocationSuccess coords0 tracker0) =
     requests tracker0 @
     [POST backendUrl
        (JObj [(''user_id'', JStr ''alice''), (''latitude'', JNum 37.5),
               (''longitude'', JNum 127), (''accuracy'', JNum 12.3),
               (''timestamp'', JStr ''2024-05-01T10:00:00.000Z'')])] \<and>
   altitude (sample coords0 tracker0) = Some 40"
  using payload_five_fields [of "sample coords0 tracker0" tracker0 "Unreachable []" coords0]
  by (simp add: payload_def sample_def coords0_def)

subsection \<open>Identity\<close>

text \<open>
  C5. A candidate that fails the format check is rejected with no request and no change
  of the session. The candidate is the trimmed value of the input field, \<^verbatim>\<open>userId\<close> in
  the source; it fails the check when it is empty, has a character outside
  \<^verbatim>\<open>[a-zA-Z0-9_-]\<close>, or is shorter than 3 or longer than 50 (\<open>well_formed_iff\<close>). Then
  \<^verbatim>\<open>submitUserId\<close> ends with a validation error of the format, which is also the status
  line, with severity error; it has made no request; and identity, the flags
  \<^verbatim>\<open>userIdSet\<close> and \<^verbatim>\<open>isInitialized\<close>, the counter, \<^verbatim>\<open>localStorage\<close> (the stored identity with
  it) and the tracking state are as before.
\<close>

theorem invalid_format_rejected:
  assumes "\<not> well_formed (trim raw)"
  shows "snd (submitUserId raw r w) =
           InvalidFormat (if trim raw = [] then Msg ''Please enter a User ID'' []
                          else Msg ''Invalid User ID format'' []) \<and>
         statusLine (fst (submitUserId raw r w)) =
           Some (if trim raw = [] then Msg ''Please enter a User ID'' []
                 else Msg ''Invalid User ID format'' [], Error) \<and>
         requests (fst (submitUserId raw r w)) = requests w \<and>
         userId (fst (submitUserId raw r w)) = userId w \<and>
         userIdSet (fst (submitUserId raw r w)) = userIdSet w \<and>
         isInitialized (fst (submitUserId raw r w)) = isInitialized w \<and>
         sessionCount (fst (submitUserId raw r w)) = sessionCount w \<and>
         localStorage (fst (submitUserId raw r w)) = localStorage w \<and>
         isTracking (fst (submitUserId raw r w)) = isTracking w \<and>
         watchId (fst (submitUserId raw r w)) = watchId w \<and>
         requests (fst (submitUserId_request raw w)) = requests w"
  using assms
  by (simp add: submitUserId_invalid) (simp add: submit_request_invalid Let_def)

theorem invalid_format_rejected_witness:
  "\<not> well_formed (trim ''ab'') \<and>
   snd (submitUserId ''ab'' (Replied 200 ''OK'' (Parsed (JArr []))) tracker0) =
     InvalidFormat (Msg ''Invalid User ID format'' []) \<and>
   requests (fst (submitUserId ''ab'' (Replied 200 ''OK'' (Parsed (JArr []))) tracker0)) =
     requests tracker0 \<and>
   userId (fst (submitUserId ''ab'' (Replied 200 ''OK'' (Parsed (JArr []))) tracker0)) =
     Some ''alice'' \<and>
   \<not> well_formed (trim '' a b '') \<and>
   snd (submitUserId '' a b '' (Unreachable ''Failed to fetch'') tracker0) =
     InvalidFormat (Msg ''Invalid User ID format'' [])"
proof -
  have h: "\<not> well_formed (trim ''ab'')" "\<not> well_formed (trim '' a b '')"
    by (simp_all add: examples_text)
  show ?thesis
    using h invalid_format_rejected [OF h(1), of "Replied 200 ''OK'' (Parsed (JArr []))" tracker0]
      invalid_format_rejected [OF h(2), of "Unreachable ''Failed to fetch''" tracker0]
    by (simp add: examples_text)
qed

text \<open>
  C2, amended. For a well-formed candidate: when the lookup gives no answer, because
  \<^verbatim>\<open>fetch\<close> rejects or the body of a 2xx response does not parse, \<^verbatim>\<open>submitUserId\<close> checks the
  local history only (the item \<^verbatim>\<open>tracking_data_\<close> followed by the candidate, \<^verbatim>\<open>[]\<close> when
  there is none, parsed as JSON). A history with an entry, or any other value whose
  \<^verbatim>\<open>length\<close> is above 0, makes the submission fail as taken locally; an empty one makes
  it accepted offline; a text that does not parse, or \<^verbatim>\<open>null\<close>, makes the method throw.
  Unless accepted, it leaves identity, flags and \<^verbatim>\<open>localStorage\<close> as they were; when
  accepted, the identity is set and stored and the status line is the offline one with
  severity warning. When the lookup answers with a status outside 200..299 the local
  history is not looked at: the identity is accepted with the ordinary status of
  success.
\<close>

theorem offline_fallback_when_unreachable:
  assumes "well_formed (trim raw)"
  shows "(lookup_failed r \<longrightarrow>
            snd (submitUserId raw r w) =
              (case JSON_parse w (getItem_or w (''tracking_data_'' @ trim raw) ''[]'') of
                 SyntaxError m \<Rightarrow> Uncaught (PlatformError m)
               | LNull \<Rightarrow> Uncaught TypeError
               | LArray xs \<Rightarrow> if xs \<noteq> [] then AlreadyTakenLocally else AcceptedOffline
               | LOther b \<Rightarrow> if b then AlreadyTakenLocally else AcceptedOffline)) \<and>
         (lookup_failed r \<and> snd (submitUserId raw r w) \<noteq> AcceptedOffline \<longrightarrow>
            userId (fst (submitUserId raw r w)) = userId w \<and>
            userIdSet (fst (submitUserId raw r w)) = userIdSet w \<and>
            isInitialized (fst (submitUserId raw r w)) = isInitialized w \<and>
            localStorage (fst (submitUserId raw r w)) = localStorage w) \<and>
         (lookup_failed r \<and> snd (submitUserId raw r w) = AcceptedOffline \<longrightarrow>
            userId (fst (submitUserId raw r w)) = Some (trim raw) \<and>
            userIdSet (fst (submitUserId raw r w)) = True \<and>
            isInitialized (fst (submitUserId raw r w)) = True \<and>
            localStorage (fst (submitUserId raw r w)) =
              (localStorage w)(''current_user_id'' \<mapsto> trim raw) \<and>
            statusLine (fst (submitUserId raw r w)) =
              Some (Msg ''Offline mode - Ready to track'' [], Warning)) \<and>
         (r = Replied status phrase b \<and> \<not> ok status \<longrightarrow>
            snd (submitUserId raw r w) = Accepted \<and>
            userId (fst (submitUserId raw r w)) = Some (trim raw) \<and>
            userIdSet (fst (submitUserId raw r w)) = True \<and>
            statusLine (fst (submitUserId raw r w)) = Some (Msg ''Ready to track'' [], Success))"
proof -
  let ?w = "fst (submitUserId_request raw w)"
  let ?u = "trim raw"
  have failed: "lookup_failed r \<Longrightarrow> \<exists>e. submitUserId raw r w = submit_catch e ?u ?w"
    using submit_response_failed [of r ?u ?w] by (simp add: submitUserId_valid [OF assms])
  have bad: "r = Replied status phrase b \<Longrightarrow> \<not> ok status \<Longrightarrow>
             submitUserId raw r w = (submit_accept ?u ?w, Accepted)"
    by (simp add: submitUserId_valid [OF assms] submit_response_bad_status)
  have one: "lookup_failed r \<longrightarrow>
      snd (submitUserId raw r w) =
        (case JSON_parse w (getItem_or w (''tracking_data_'' @ ?u) ''[]'') of
           SyntaxError m \<Rightarrow> Uncaught (PlatformError m)
         | LNull \<Rightarrow> Uncaught TypeError
         | LArray xs \<Rightarrow> if xs \<noteq> [] then AlreadyTakenLocally else AcceptedOffline
         | LOther b \<Rightarrow> if b then AlreadyTakenLocally else AcceptedOffline)"
  proof
    assume "lookup_failed r"
    then obtain e where e: "submitUserId raw r w = submit_catch e ?u ?w"
      using failed by blast
    show "snd (submitUserId raw r w) =
        (case JSON_parse w (getItem_or w (''tracking_data_'' @ ?u) ''[]'') of
           SyntaxError m \<Rightarrow> Uncaught (PlatformError m)
         | LNull \<Rightarrow> Uncaught TypeError
         | LArray xs \<Rightarrow> if xs \<noteq> [] then AlreadyTakenLocally else AcceptedOffline
         | LOther b \<Rightarrow> if b then AlreadyTakenLocally else AcceptedOffline)"
      unfolding e submit_catch_exit by (simp only: request_keeps_log)
  qed
  have two: "lookup_failed r \<and> snd (submitUserId raw r w) \<noteq> AcceptedOffline \<longrightarrow>
      userId (fst (submitUserId raw r w)) = userId w \<and>
      userIdSet (fst (submitUserId raw r w)) = userIdSet w \<and>
      isInitialized (fst (submitUserId raw r w)) = isInitialized w \<and>
      localStorage (fst (submitUserId raw r w)) = localStorage w"
  proof
    assume a: "lookup_failed r \<and> snd (submitUserId raw r w) \<noteq> AcceptedOffline"
    then obtain e where e: "submitUserId raw r w = submit_catch e ?u ?w"
      using failed by blast
    with a have "snd (submit_catch e ?u ?w) \<noteq> AcceptedOffline" by simp
    from submit_catch_refused [OF this]
    show "userId (fst (submitUserId raw r w)) = userId w \<and>
      userIdSet (fst (submitUserId raw r w)) = userIdSet w \<and>
      isInitialized (fst (submitUserId raw r w)) = isInitialized w \<and>
      localStorage (fst (submitUserId raw r w)) = localStorage w"
      by (simp add: e)
  qed
  have three: "lookup_failed r \<and> snd (submitUserId raw r w) = AcceptedOffline \<longrightarrow>
      userId (fst (submitUserId raw r w)) = Some ?u \<and>
      userIdSet (fst (submitUserId raw r w)) = True \<and>
      isInitialized (fst (submitUserId raw r w)) = True \<and>
      localStorage (fst (submitUserId raw r w)) = (localStorage w)(''current_user_id'' \<mapsto> ?u) \<and>
      statusLine (fst (submitUserId raw r w)) =
        Some (Msg ''Offline mode - Ready to track'' [], Warning)"
  proof
    assume a: "lookup_failed r \<and> snd (submitUserId raw r w) = AcceptedOffline"
    then obtain e where e: "submitUserId raw r w = submit_catch e ?u ?w"
      using failed by blast
    with a have "snd (submit_catch e ?u ?w) = AcceptedOffline" by simp
    from submit_catch_accepted [OF this]
    show "userId (fst (submitUserId raw r w)) = Some ?u \<and>
      userIdSet (fst (submitUserId raw r w)) = True \<and>
      isInitialized (fst (submitUserId raw r w)) = True \<and>
      localStorage (fst (submitUserId raw r w)) = (localStorage w)(''current_user_id'' \<mapsto> ?u) \<and>
      statusLine (fst (submitUserId raw r w)) =
        Some (Msg ''Offline mode - Ready to track'' [], Warning)"
      by (simp add: e)
  qed
  have four: "r = Replied status phrase b \<and> \<not> ok status \<longrightarrow>
      snd (submitUserId raw r w) = Accepted \<and>
      userId (fst (submitUserId raw r w)) = Some ?u \<and>
      userIdSet (fst (submitUserId raw r w)) = True \<and>
      statusLine (fst (submitUserId raw r w)) = Some (Msg ''Ready to track'' [], Success)"
    using bad by simp
  from one two three four show ?thesis by blast
qed

theorem offline_fallback_when_unreachable_witness:
  "well_formed (trim ''bob_1'') \<and>
   JSON_parse (constructor NoPermissionsAPI browser1)
     (getItem_or (constructor NoPermissionsAPI browser1) (''tracking_data_'' @ trim ''bob_1'') ''[]'')
     = LArray [JObj []] \<and>
   snd (submitUserId ''bob_1'' (Unreachable ''Failed to fetch'')
          (constructor NoPermissionsAPI browser1)) = AlreadyTakenLocally \<and>
   userId (fst (submitUserId ''bob_1'' (Unreachable ''Failed to fetch'')
                  (constructor NoPermissionsAPI browser1))) = None \<and>
   JSON_parse (constructor NoPermissionsAPI browser0)
     (getItem_or (constructor NoPermissionsAPI browser0) (''tracking_data_'' @ trim ''bob_1'') ''[]'')
     = LArray [] \<and>
   snd (submitUserId ''bob_1'' (Unreachable ''Failed to fetch'')
          (constructor NoPermissionsAPI browser0)) = AcceptedOffline \<and>
   userId (fst (submitUserId ''bob_1'' (Unreachable ''Failed to fetch'')
                  (constructor NoPermissionsAPI browser0))) = Some ''bob_1'' \<and>
   statusLine (fst (submitUserId ''bob_1'' (Unreachable ''Failed to fetch'')
                      (constructor NoPermissionsAPI browser0))) =
     Some (Msg ''Offline mode - Ready to track'' [], Warning) \<and>
   snd (submitUserId ''bob_1'' (Replied 404 ''Not Found'' (Unparsable ''Unexpected token''))
          (constructor NoPermissionsAPI browser0)) = Accepted"
proof -
  let ?w1 = "constructor NoPermissionsAPI browser1"
  let ?w0 = "constructor NoPermissionsAPI browser0"
  have wf: "well_formed (trim ''bob_1'')" by (simp add: examples_text)
  have l1: "JSON_parse ?w1 (getItem_or ?w1 (''tracking_data_'' @ trim ''bob_1'') ''[]'')
              = LArray [JObj []]"
    by (simp add: examples_text getItem_or_def)
  have l0: "JSON_parse ?w0 (getItem_or ?w0 (''tracking_data_'' @ trim ''bob_1'') ''[]'')
              = LArray []"
    by (simp add: examples_text getItem_or_def)
  have a1: "snd (submitUserId ''bob_1'' (Unreachable ''Failed to fetch'') ?w1) = AlreadyTakenLocally"
    using offline_fallback_when_unreachable
            [OF wf, where r = "Unreachable ''Failed to fetch''" and w = ?w1]
    by (simp add: examples_text getItem_or_def)
  have a0: "snd (submitUserId ''bob_1'' (Unreachable ''Failed to fetch'') ?w0) = AcceptedOffline"
    using offline_fallback_when_unreachable
            [OF wf, where r = "Unreachable ''Failed to fetch''" and w = ?w0]
    by (simp add: examples_text getItem_or_def)
  show ?thesis
    using wf l1 l0 a1 a0
      offline_fallback_when_unreachable
        [OF wf, where r = "Unreachable ''Failed to fetch''" and w = ?w1]
      offline_fallback_when_unreachable
        [OF wf, where r = "Unreachable ''Failed to fetch''" and w = ?w0]
      offline_fallback_when_unreachable
        [OF wf, where r = "Replied 404 ''Not Found'' (Unparsable ''Unexpected token'')"
           and w = ?w0 and status = 404 and phrase = "''Not Found''"
           and b = "Unparsable ''Unexpected token''"]
    by (simp add: ok_def examples_text)
qed

text \<open>
  C2 as stated fails on a status outside 200..299: with a local history of one entry
  for \<^verbatim>\<open>bob_1\<close> and a lookup that answers 500, \<^verbatim>\<open>bob_1\<close> is accepted, with the status of
  success and no warning.
\<close>

theorem bad_status_skips_local_check_counterexample:
  "well_formed ''bob_1'' \<and>
   \<not> ok 500 \<and>
   localStorage (constructor NoPermissionsAPI browser1) ''tracking_data_bob_1'' = Some ''[{}]'' \<and>
   JSON_parse (constructor NoPermissionsAPI browser1) ''[{}]'' = LArray [JObj []] \<and>
   snd (submitUserId ''bob_1'' (Replied 500 ''Internal Server Error'' (Unparsable []))
          (constructor NoPermissionsAPI browser1)) = Accepted \<and>
   userId (fst (submitUserId ''bob_1'' (Replied 500 ''Internal Server Error'' (Unparsable []))
                  (constructor NoPermissionsAPI browser1))) = Some ''bob_1'' \<and>
   userIdSet (fst (submitUserId ''bob_1'' (Replied 500 ''Internal Server Error'' (Unparsable []))
                  (constructor NoPermissionsAPI browser1))) = True \<and>
   statusLine (fst (submitUserId ''bob_1'' (Replied 500 ''Internal Server Error'' (Unparsable []))
                      (constructor NoPermissionsAPI browser1))) =
     Some (Msg ''Ready to track'' [], Success)"
  by (simp add: examples_text ok_def submitUserId_valid submit_response_bad_status)




subsection \<open>Tracking\<close>

text \<open>
  C4. At most one subscription is live at any time. In the world \<open>w\<close> reached by any run
  (clicks on start and stop, and every other event, in any order) from the constructor
  in a browser with no subscription: the live subscriptions of the provider are the
  one \<^verbatim>\<open>watchId\<close> names, or none when it is \<^verbatim>\<open>null\<close>, so there is never more than one, also
  after one more \<^verbatim>\<open>startTracking\<close>; while a handle is held \<^verbatim>\<open>startTracking\<close> leaves provider
  and handle as they are; \<^verbatim>\<open>stopTracking\<close> throws nothing, leaves the handle \<^verbatim>\<open>null\<close> and no
  subscription live, and has called \<^verbatim>\<open>clearWatch\<close> once, with the handle that was held,
  and not at all when none was; a second \<^verbatim>\<open>stopTracking\<close> right after only logs the
  warning, without another \<^verbatim>\<open>clearWatch\<close> and without throwing.
\<close>

theorem at_most_one_subscription:
  assumes "live (geo b) = []" and "w = run es (constructor q b)"
  shows "live (geo w) = (case watchId w of None \<Rightarrow> [] | Some h \<Rightarrow> [h]) \<and>
         length (live (geo w)) \<le> 1 \<and>
         length (live (geo (startTracking w))) \<le> 1 \<and>
         (watchId w \<noteq> None \<longrightarrow>
            geo (startTracking w) = geo w \<and> watchId (startTracking w) = watchId w) \<and>
         snd (stopTracking w) = None \<and>
         watchId (fst (stopTracking w)) = None \<and>
         live (geo (fst (stopTracking w))) = [] \<and>
         cleared (geo (fst (stopTracking w))) =
           cleared (geo w) @ (case watchId w of None \<Rightarrow> [] | Some h \<Rightarrow> [h]) \<and>
         stopTracking (fst (stopTracking w)) =
           (debug (Msg ''Tracking not active'' []) Warning (fst (stopTracking w)), None) \<and>
         geo (fst (stopTracking (fst (stopTracking w)))) = geo (fst (stopTracking w)) \<and>
         watchId (fst (stopTracking (fst (stopTracking w)))) = None"
proof -
  have inv: "one_watch w"
    using assms by (simp add: one_watch_run one_watch_constructor)
  have lv: "live (geo w) = (case watchId w of None \<Rightarrow> [] | Some h \<Rightarrow> [h])"
    using inv by (simp add: one_watch_def)
  then have le: "length (live (geo w)) \<le> 1"
    by (simp split: option.split)
  have "one_watch (startTracking w)"
    using inv by (rule one_watch_start)
  then have le': "length (live (geo (startTracking w))) \<le> 1"
    by (simp add: one_watch_def split: option.split)
  have held: "watchId w \<noteq> None \<Longrightarrow> isTracking w"
    using inv by (auto simp add: one_watch_def)
  have again: "watchId w \<noteq> None \<longrightarrow>
      geo (startTracking w) = geo w \<and> watchId (startTracking w) = watchId w"
    using held startTracking_guarded [of w] by auto
  note stop = stopTracking_one_watch [OF inv]
  have second: "stopTracking (fst (stopTracking w)) =
      (debug (Msg ''Tracking not active'' []) Warning (fst (stopTracking w)), None)"
    using stop(4) by (simp add: stopTracking_idle)
  show ?thesis
    using lv le le' again stop(1,2,3,5) second by simp
qed

theorem at_most_one_subscription_witness:
  "live (geo browser0) = [] \<and>
   watchId (run [Submit ''alice'', LookupSettled ''alice'' (Replied 200 ''OK'' (Parsed (JArr []))),
                 Start, Start, Stop, Stop, Start]
              (constructor (PermissionState ''granted'') browser0)) = Some 2 \<and>
   live (geo (run [Submit ''alice'',
                   LookupSettled ''alice'' (Replied 200 ''OK'' (Parsed (JArr []))),
                   Start, Start, Stop, Stop, Start]
                (constructor (PermissionState ''granted'') browser0))) = [2] \<and>
   cleared (geo (run [Submit ''alice'',
                      LookupSettled ''alice'' (Replied 200 ''OK'' (Parsed (JArr []))),
                      Start, Start, Stop, Stop, Start]
                   (constructor (PermissionState ''granted'') browser0))) = [1]"
proof -
  let ?es = "[Submit ''alice'', LookupSettled ''alice'' (Replied 200 ''OK'' (Parsed (JArr []))),
              Start, Start, Stop, Stop, Start]"
  let ?c = "constructor (PermissionState ''granted'') browser0"
  have h: "live (geo browser0) = []" by simp
  have "fst (submitUserId_response ''alice'' (Replied 200 ''OK'' (Parsed (JArr [])))
               (fst (submitUserId_request ''alice'' ?c))) = tracker0"
    by (simp add: tracker0_def submitUserId_valid examples_text)
  then have r: "run ?es ?c = run [Start, Start, Stop, Stop, Start] tracker0"
    by simp
  have w: "watchId (run ?es ?c) = Some 2"
    unfolding r
    by (simp add: startTracking_idle startTracking_guarded stopTracking_idle
          stopTracking_active watchPosition_def clearWatch_def)
  have c: "cleared (geo (run ?es ?c)) = [1]"
    unfolding r
    by (simp add: startTracking_idle startTracking_guarded stopTracking_idle
          stopTracking_active watchPosition_def clearWatch_def)
  show ?thesis
    using h w c at_most_one_subscription [OF h refl, of ?es "PermissionState ''granted''"]
    by simp
qed

text \<open>
  C6. \<^verbatim>\<open>startTracking\<close> with no identity set, or while tracking is on, changes neither the
  session counter nor \<^verbatim>\<open>localStorage\<close> nor the provider, its handle or the tracking flag.
  With an identity set and tracking off it turns tracking on, applies \<^verbatim>\<open>++\<close> to the counter
  once and stores the new value, as the browser prints it, under \<^verbatim>\<open>session_count_\<close>
  followed by the identity. For a counter \<open>n\<close> from \<open>- 2 ^ 53\<close> to \<open>2 ^ 53 - 1\<close>, where
  doubles count exactly, the new counter is \<open>n + 1\<close> and the stored text is its decimal
  digits. (At \<open>2 ^ 53\<close> the sum rounds back and the counter stays, as the last two lines
  of the example show.)
\<close>

theorem startTracking_guards_counter:
  "(\<not> userIdSet w \<or> isTracking w \<longrightarrow>
      sessionCount (startTracking w) = sessionCount w \<and>
      localStorage (startTracking w) = localStorage w \<and>
      geo (startTracking w) = geo w \<and>
      watchId (startTracking w) = watchId w \<and>
      isTracking (startTracking w) = isTracking w) \<and>
   (userIdSet w \<and> \<not> isTracking w \<longrightarrow>
      isTracking (startTracking w) = True \<and>
      sessionCount (startTracking w) = increment (sessionCount w) \<and>
      localStorage (startTracking w) =
        (localStorage w)(''session_count_'' @ id_text (userId w) \<mapsto>
           String_of (Number_toString w) (increment (sessionCount w)))) \<and>
   (userIdSet w \<and> \<not> isTracking w \<and> userId w = Some u \<and> sessionCount w = Num n \<and>
    - (2 ^ 53) \<le> n \<and> n < 2 ^ 53 \<longrightarrow>
      sessionCount (startTracking w) = Num (n + 1) \<and>
      localStorage (startTracking w) (''session_count_'' @ u) = Some (decimal_int (n + 1)))"
proof -
  have guarded: "\<not> userIdSet w \<or> isTracking w \<longrightarrow>
      sessionCount (startTracking w) = sessionCount w \<and>
      localStorage (startTracking w) = localStorage w \<and>
      geo (startTracking w) = geo w \<and>
      watchId (startTracking w) = watchId w \<and>
      isTracking (startTracking w) = isTracking w"
    using startTracking_guarded [of w] by blast
  have started: "userIdSet w \<and> \<not> isTracking w \<longrightarrow>
      isTracking (startTracking w) = True \<and>
      sessionCount (startTracking w) = increment (sessionCount w) \<and>
      localStorage (startTracking w) =
        (localStorage w)(''session_count_'' @ id_text (userId w) \<mapsto>
           String_of (Number_toString w) (increment (sessionCount w)))"
    by (simp add: startTracking_idle)
  have counted: "userIdSet w \<and> \<not> isTracking w \<and> userId w = Some u \<and> sessionCount w = Num n \<and>
      - (2 ^ 53) \<le> n \<and> n < 2 ^ 53 \<longrightarrow>
      sessionCount (startTracking w) = Num (n + 1) \<and>
      localStorage (startTracking w) (''session_count_'' @ u) = Some (decimal_int (n + 1))"
  proof
    assume a: "userIdSet w \<and> \<not> isTracking w \<and> userId w = Some u \<and> sessionCount w = Num n \<and>
      - (2 ^ 53) \<le> n \<and> n < 2 ^ 53"
    then have inc: "increment (sessionCount w) = Num (n + 1)"
      by (simp only: increment_exact)
    have "String_of (Number_toString w) (Num (n + 1)) = decimal_int (n + 1)"
      using a by simp
    with a inc show "sessionCount (startTracking w) = Num (n + 1) \<and>
      localStorage (startTracking w) (''session_count_'' @ u) = Some (decimal_int (n + 1))"
      by (simp add: startTracking_idle)
  qed
  from guarded started counted show ?thesis by blast
qed

theorem startTracking_guards_counter_witness:
  "userIdSet tracker0 \<and> \<not> isTracking tracker0 \<and>
   sessionCount tracker0 = Num 0 \<and>
   sessionCount (startTracking tracker0) = Num 1 \<and>
   localStorage (startTracking tracker0) ''session_count_alice'' = Some ''1'' \<and>
   isTracking (startTracking tracker0) \<and>
   sessionCount (startTracking (startTracking tracker0)) = Num 1 \<and>
   geo (startTracking (startTracking tracker0)) = geo (startTracking tracker0) \<and>
   \<not> userIdSet (constructor NoPermissionsAPI browser0) \<and>
   sessionCount (startTracking (constructor NoPermissionsAPI browser0)) = Num 0 \<and>
   watchId (startTracking (constructor NoPermissionsAPI browser0)) = None \<and>
   isTracking (startTracking (constructor NoPermissionsAPI browser0)) = False \<and>
   sessionCount (startTracking (tracker0\<lparr>sessionCount := Num 9007199254740992\<rparr>)) =
     Num 9007199254740992 \<and>
   localStorage (startTracking (tracker0\<lparr>sessionCount := Num 9007199254740992\<rparr>))
     ''session_count_alice'' = Some ''9007199254740992''"
proof -
  have top: "increment (Num 9007199254740992) = Num 9007199254740992"
    "String_of pr (Num 9007199254740992) = ''9007199254740992''" for pr
    by code_simp+
  show ?thesis
    using startTracking_guards_counter [of tracker0 "''alice''" 0]
      startTracking_guards_counter [of "startTracking tracker0" "''alice''" 1]
      startTracking_guards_counter [of "constructor NoPermissionsAPI browser0" "''alice''" 0]
      startTracking_guards_counter [of "tracker0\<lparr>sessionCount := Num 9007199254740992\<rparr>"
        "''alice''" 0]
    by (simp add: tracking0_fields counter_examples top del: increment.simps String_of.simps)
qed

text \<open>
  C7. Of the provider's errors only code 1 (permission denied) stops tracking. While
  tracking is on (and a handle is held only where \<^verbatim>\<open>navigator.geolocation\<close> exists, as in
  every state the program reaches): on code 1 \<^verbatim>\<open>onLocationError\<close> is \<^verbatim>\<open>stopTracking\<close> run
  after the error has been logged and shown, nothing is thrown, tracking is off
  afterwards, the handle is \<^verbatim>\<open>null\<close> and the subscription it named is cleared; on every
  other code (2, 3 or one the program does not know) tracking stays on, the handle and
  the provider are as before, and the status line shows the error.
\<close>

theorem only_permission_denied_stops:
  assumes "isTracking w" and "geolocation w \<or> watchId w = None"
  shows "(code = 1 \<longrightarrow>
            stopTracking (setStatus (errorMessages 1) Error (debug (errorMessages 1) Error w)) =
              onLocationError code w \<and>
            snd (onLocationError code w) = None \<and>
            isTracking (fst (onLocationError code w)) = False \<and>
            watchId (fst (onLocationError code w)) = None \<and>
            geo (fst (onLocationError code w)) =
              (case watchId w of None \<Rightarrow> geo w | Some h \<Rightarrow> clearWatch h (geo w))) \<and>
         (code \<noteq> 1 \<longrightarrow>
            snd (onLocationError code w) = None \<and>
            isTracking (fst (onLocationError code w)) = True \<and>
            watchId (fst (onLocationError code w)) = watchId w \<and>
            geo (fst (onLocationError code w)) = geo w \<and>
            statusLine (fst (onLocationError code w)) = Some (errorMessages code, Error))"
proof (cases "code = 1")
  case True
  let ?w = "setStatus (errorMessages 1) Error (debug (errorMessages 1) Error w)"
  have "isTracking ?w" "geolocation ?w \<or> watchId ?w = None"
    using assms by simp_all
  note stop = stopTracking_active [OF this]
  have "geo ?w = geo w" "watchId ?w = watchId w" by simp_all
  with stop True show ?thesis
    unfolding True onLocationError_denied by (auto split: option.splits)
next
  case False
  with assms show ?thesis by (simp add: onLocationError_other)
qed

theorem only_permission_denied_stops_witness:
  "isTracking (startTracking tracker0) \<and>
   geolocation (startTracking tracker0) \<and>
   isTracking (fst (onLocationError 1 (startTracking tracker0))) = False \<and>
   watchId (fst (onLocationError 1 (startTracking tracker0))) = None \<and>
   live (geo (fst (onLocationError 1 (startTracking tracker0)))) = [] \<and>
   isTracking (fst (onLocationError 3 (startTracking tracker0))) = True \<and>
   watchId (fst (onLocationError 3 (startTracking tracker0))) = Some 1 \<and>
   statusLine (fst (onLocationError 3 (startTracking tracker0))) =
     Some (Msg ''Location request timeout'' [], Error)"
proof -
  have h: "isTracking (startTracking tracker0)"
    "geolocation (startTracking tracker0) \<or> watchId (startTracking tracker0) = None"
    by (simp_all add: tracking0_fields)
  show ?thesis
    using only_permission_denied_stops [OF h, of 1] only_permission_denied_stops [OF h, of 3]
    by (simp add: tracking0_fields errorMessages_def clearWatch_def)
qed

subsection \<open>The debug log\<close>

text \<open>
  C9. The debug log is bounded, first in first out. From a log of at most 50 entries
  (the constructor leaves it empty), after any sequence of calls of \<^verbatim>\<open>debug\<close> the log has
  at most 50 entries and is the last 50 of all entries, the old ones followed by one
  entry for each call in the order of the calls. A single call writes its entry at the
  end, after the whole old log when that had fewer than 50 entries and after the old
  log without its first entry otherwise.
\<close>

theorem debug_log_bounded_fifo:
  assumes "length (debugLogs w) \<le> maxDebugLogs"
  shows "length (debugLogs (debug_all cs w)) \<le> 50 \<and>
         debugLogs (debug_all cs w) =
           drop (length (debugLogs w) + length cs - 50) (debugLogs w @ map entry_of cs) \<and>
         debugLogs (debug m t w) =
           (if length (debugLogs w) < 50 then debugLogs w else tl (debugLogs w)) @
           [\<lparr>le_message = m, le_type = t, le_timestamp = nowLocale w\<rparr>]"
proof -
  have all: "debugLogs (debug_all cs w) =
      drop (length (debugLogs w) + length cs - 50) (debugLogs w @ map entry_of cs)"
    using debug_all_logs [OF assms, of cs] by (simp add: maxDebugLogs_def)
  have "length (debugLogs (debug_all cs w)) \<le> 50"
    using assms by (simp add: all maxDebugLogs_def)
  moreover have "debugLogs (debug m t w) =
      (if length (debugLogs w) < 50 then debugLogs w else tl (debugLogs w)) @
      [\<lparr>le_message = m, le_type = t, le_timestamp = nowLocale w\<rparr>]"
  proof (cases "length (debugLogs w) < 50")
    case True
    then show ?thesis by (simp add: debug_logs Let_def maxDebugLogs_def)
  next
    case False
    then have "debugLogs w \<noteq> []" by auto
    with False show ?thesis by (simp add: debug_logs Let_def maxDebugLogs_def)
  qed
  ultimately show ?thesis using all by simp
qed

theorem debug_log_bounded_fifo_witness:
  "length (debugLogs (browser0\<lparr>debugLogs := replicate 50 (entry_of (''09:59:59 AM'', Msg ''old'' [], Info))\<rparr>))
     \<le> maxDebugLogs \<and>
   debugLogs (debug_all [(''10:00:01 AM'', Msg ''new'' [], Warning)]
     (browser0\<lparr>debugLogs := replicate 50 (entry_of (''09:59:59 AM'', Msg ''old'' [], Info))\<rparr>))
   = replicate 49 (entry_of (''09:59:59 AM'', Msg ''old'' [], Info)) @
       [entry_of (''10:00:01 AM'', Msg ''new'' [], Warning)]"
proof -
  let ?old = "entry_of (''09:59:59 AM'', Msg ''old'' [], Info)"
  let ?w = "browser0\<lparr>debugLogs := replicate 50 ?old\<rparr>"
  have h: "length (debugLogs ?w) \<le> maxDebugLogs" by (simp add: maxDebugLogs_def)
  have r: "drop (Suc 0) (replicate 50 ?old) = replicate 49 ?old" by simp
  show ?thesis
    using h debug_log_bounded_fifo [OF h, of "[(''10:00:01 AM'', Msg ''new'' [], Warning)]"] r
    by simp
qed

subsection \<open>The local history\<close>

text \<open>
  C10. No operation of the program writes an item \<^verbatim>\<open>tracking_data_\<close> followed by an
  identity. After any run, from any world, every such item is what it was before the
  run, so the local history that the \<^verbatim>\<open>catch\<close> block of \<^verbatim>\<open>submitUserId\<close> reads is what it
  was too; the constructor writes nothing to \<^verbatim>\<open>localStorage\<close>; \<^verbatim>\<open>addLocationLog\<close> and the
  whole of \<^verbatim>\<open>sendToBackend\<close> leave \<^verbatim>\<open>localStorage\<close> alone, the sample going to the array
  \<^verbatim>\<open>locations\<close> only; and in a browser that starts with nothing stored the local
  history reads as \<^verbatim>\<open>[]\<close> after every run, for every identity.
\<close>

theorem local_history_never_written:
  "localStorage (run es w) (''tracking_data_'' @ i) = localStorage w (''tracking_data_'' @ i) \<and>
   getItem_or (run es w) (''tracking_data_'' @ i) ''[]'' =
     getItem_or w (''tracking_data_'' @ i) ''[]'' \<and>
   localStorage (constructor q b) = localStorage b \<and>
   localStorage (addLocationLog d w) = localStorage w \<and>
   localStorage (sendToBackend d r w) = localStorage w \<and>
   locations (addLocationLog d w) = locations w @ [d] \<and>
   getItem_or (run es (constructor q (b\<lparr>localStorage := Map.empty\<rparr>)))
     (''tracking_data_'' @ i) ''[]'' = ''[]''"
proof -
  have keep: "\<And>v. localStorage (run es v) (''tracking_data_'' @ i) =
                   localStorage v (''tracking_data_'' @ i)"
    by (rule run_keeps_history) (rule refl)
  have "getItem_or (run es w) (''tracking_data_'' @ i) ''[]'' =
        getItem_or w (''tracking_data_'' @ i) ''[]''"
    unfolding getItem_or_def keep ..
  moreover have "getItem_or (run es (constructor q (b\<lparr>localStorage := Map.empty\<rparr>)))
                   (''tracking_data_'' @ i) ''[]'' = ''[]''"
    unfolding getItem_or_def keep by simp
  ultimately show ?thesis
    using keep [of w] by (simp add: sendToBackend_def)
qed

theorem local_history_never_written_witness:
  "getItem_or
     (run [Submit ''alice'', LookupSettled ''alice'' (Unreachable ''Failed to fetch''), Start,
           Position coords0,
           DeliverySettled (sample coords0 browser0) (Unreachable ''Failed to fetch''), Stop]
        (constructor NoPermissionsAPI browser0))
     (''tracking_data_'' @ ''alice'') ''[]'' = ''[]'' \<and>
   localStorage
     (run [Submit ''bob_1'', LookupSettled ''bob_1'' (Replied 404 ''Not Found'' (Unparsable [])),
           Start, Stop]
        (constructor NoPermissionsAPI browser1))
     (''tracking_data_'' @ ''bob_1'') = Some ''[{}]''"
  using local_history_never_written
          [of "[Submit ''alice'', LookupSettled ''alice'' (Unreachable ''Failed to fetch''), Start,
                Position coords0,
                DeliverySettled (sample coords0 browser0) (Unreachable ''Failed to fetch''), Stop]"
              "constructor NoPermissionsAPI browser0" "''alice''"]
        local_history_never_written
          [of "[Submit ''bob_1'',
                LookupSettled ''bob_1'' (Replied 404 ''Not Found'' (Unparsable [])), Start, Stop]"
              "constructor NoPermissionsAPI browser1" "''bob_1''"]
  by (simp add: getItem_or_def)

end
